theory Spec2Isabelle
  imports Complex_Main
begin

section \<open>Numbers, vectors and quaternions\<close>

text \<open>
  The program is \<^verbatim>\<open>src/main.js\<close>, a three.js scene. JavaScript numbers are modelled as
  \<^typ>\<open>real\<close>: every theorem below is about exact arithmetic, which the program follows up
  to the rounding of IEEE doubles (and of the \<^verbatim>\<open>Float32Array\<close> that stores the pebbles'
  rotation angles). \<^verbatim>\<open>Math.random()\<close> is a stream \<open>random :: nat \<Rightarrow> real\<close> of draws together
  with the number of draws made so far, so that the order in which the code draws is part of
  the model.

  \<^verbatim>\<open>a ?? b\<close> is \<open>nullish\<close> (\<open>None\<close> is \<^verbatim>\<open>null\<close>/\<^verbatim>\<open>undefined\<close>), and \<^verbatim>\<open>a || b\<close> on a number is
  \<open>orElse\<close>: zero is falsy.
\<close>

definition nullish :: "'a option \<Rightarrow> 'a \<Rightarrow> 'a" where
  "nullish a b = (case a of None \<Rightarrow> b | Some v \<Rightarrow> v)"

definition orElse :: "real \<Rightarrow> real \<Rightarrow> real" where
  "orElse a b = (if a = 0 then b else a)"

definition degToRad :: "real \<Rightarrow> real" where
  "degToRad degrees = degrees * (pi / 180)"

record vector3 =
  vx :: real
  vy :: real
  vz :: real

record quaternion =
  qx :: real
  qy :: real
  qz :: real
  qw :: real

text \<open>
  The three.js operations the program calls, as the library defines them:
  \<^verbatim>\<open>Quaternion.setFromAxisAngle\<close>, \<^verbatim>\<open>Quaternion.multiply\<close> (\<open>a.multiply(b)\<close> is \<open>a * b\<close>),
  \<^verbatim>\<open>Quaternion.setFromEuler\<close> for the default order XYZ, \<^verbatim>\<open>Object3D.rotateY\<close> (a rotation
  about the object's own Y axis, multiplied on the right) and \<^verbatim>\<open>Vector3.normalize\<close>.
\<close>

definition identityQ :: quaternion where
  "identityQ = \<lparr>qx = 0, qy = 0, qz = 0, qw = 1\<rparr>"

definition setFromAxisAngle :: "vector3 \<Rightarrow> real \<Rightarrow> quaternion" where
  "setFromAxisAngle axis angle =
     (let halfAngle = angle / 2; s = sin halfAngle
      in \<lparr>qx = vx axis * s, qy = vy axis * s, qz = vz axis * s, qw = cos halfAngle\<rparr>)"

definition multiply :: "quaternion \<Rightarrow> quaternion \<Rightarrow> quaternion" where
  "multiply a b =
     \<lparr>qx = qx a * qw b + qw a * qx b + qy a * qz b - qz a * qy b,
      qy = qy a * qw b + qw a * qy b + qz a * qx b - qx a * qz b,
      qz = qz a * qw b + qw a * qz b + qx a * qy b - qy a * qx b,
      qw = qw a * qw b - qx a * qx b - qy a * qy b - qz a * qz b\<rparr>"

definition setFromEuler :: "real \<Rightarrow> real \<Rightarrow> real \<Rightarrow> quaternion" where
  "setFromEuler ex ey ez =
     (let c1 = cos (ex / 2); c2 = cos (ey / 2); c3 = cos (ez / 2);
          s1 = sin (ex / 2); s2 = sin (ey / 2); s3 = sin (ez / 2)
      in \<lparr>qx = s1 * c2 * c3 + c1 * s2 * s3,
          qy = c1 * s2 * c3 - s1 * c2 * s3,
          qz = c1 * c2 * s3 + s1 * s2 * c3,
          qw = c1 * c2 * c3 - s1 * s2 * s3\<rparr>)"

definition yAxis :: vector3 where
  "yAxis = \<lparr>vx = 0, vy = 1, vz = 0\<rparr>"

definition rotateY :: "real \<Rightarrow> quaternion \<Rightarrow> quaternion" where
  "rotateY angle q = multiply q (setFromAxisAngle yAxis angle)"

definition normalize :: "vector3 \<Rightarrow> vector3" where
  "normalize v =
     (let l = orElse (sqrt (vx v * vx v + vy v * vy v + vz v * vz v)) 1
      in \<lparr>vx = vx v / l, vy = vy v / l, vz = vz v / l\<rparr>)"

section \<open>The planet data and the scene graph\<close>

text \<open>
  The entries of the \<^verbatim>\<open>planets\<close> array (the material is left out: no update reads it).
  \<open>moons = None\<close> is a \<^verbatim>\<open>moons\<close> field that is not an array, which the assembly skips.
\<close>

record moon_data =
  moon_name :: string
  moon_radius :: real
  moon_distance :: real
  moon_speed :: real

record planet_data =
  name :: string
  radius :: real
  distance :: real
  speed :: real
  tilt :: real
  moons :: "moon_data list option"

text \<open>\<^verbatim>\<open>moonMesh.userData.orbit\<close>: \<^verbatim>\<open>{distance, speed, angle}\<close>.\<close>

record orbit_data =
  orbit_distance :: real
  orbit_speed :: real
  angle :: real

text \<open>
  A child of a planet mesh: a moon, a label anchor or the ring group. Only a moon carries
  \<^verbatim>\<open>userData.isMoon\<close> and \<^verbatim>\<open>userData.orbit\<close>.
\<close>

record child =
  position :: vector3
  child_scale :: real
  isMoon :: bool
  orbit_params :: "orbit_data option"

text \<open>A \<^verbatim>\<open>THREE.Group\<close> with its Euler rotation; the ring group also holds its rocks.\<close>

record rock =
  rock_position :: vector3
  rock_scale :: real

record group =
  rotation_x :: real
  rotation_y :: real
  rotation_z :: real
  rocks :: "rock list"

record planet_mesh =
  mesh_name :: string
  mesh_position :: vector3
  mesh_scale :: real
  mesh_quaternion :: quaternion
  children :: "child list"
  ring :: "group option"

text \<open>An entry of \<^verbatim>\<open>created\<close>: \<^verbatim>\<open>{data, orbit, tilt, mesh}\<close>.\<close>

record created_obj =
  data :: planet_data
  orbit :: group
  tilt_group :: group
  mesh :: planet_mesh

definition emptyGroup :: group where
  "emptyGroup = \<lparr>rotation_x = 0, rotation_y = 0, rotation_z = 0, rocks = []\<rparr>"

definition buildPlanetWithTilt :: "planet_data \<Rightarrow> created_obj" where
  "buildPlanetWithTilt planetData =
     (let tiltRad = orElse (tilt planetData) 0 * pi / 180
      in \<lparr>data = planetData,
          orbit = emptyGroup,
          tilt_group = emptyGroup\<lparr>rotation_z := tiltRad\<rparr>,
          mesh = \<lparr>mesh_name = name planetData,
                  mesh_position = \<lparr>vx = distance planetData, vy = 0, vz = 0\<rparr>,
                  mesh_scale = radius planetData,
                  mesh_quaternion = identityQ,
                  children = [],
                  ring = None\<rparr>\<rparr>)"

text \<open>
  Moon attachment (the second \<^verbatim>\<open>created.forEach\<close>): one draw of \<^verbatim>\<open>Math.random()\<close> per moon,
  for the start angle. The functions return the number of draws made so far.
\<close>

definition makeMoonMesh :: "moon_data \<Rightarrow> real \<Rightarrow> child" where
  "makeMoonMesh m u =
     \<lparr>position = \<lparr>vx = moon_distance m, vy = 0, vz = 0\<rparr>,
      child_scale = moon_radius m,
      isMoon = True,
      orbit_params = Some \<lparr>orbit_distance = moon_distance m, orbit_speed = moon_speed m,
                           angle = u * pi * 2\<rparr>\<rparr>"

fun moonMeshes :: "(nat \<Rightarrow> real) \<Rightarrow> moon_data list \<Rightarrow> nat \<Rightarrow> child list \<times> nat" where
  "moonMeshes random [] n = ([], n)"
| "moonMeshes random (m # ms) n =
     (let (cs, n') = moonMeshes random ms (Suc n) in (makeMoonMesh m (random n) # cs, n'))"

definition attachMoons :: "(nat \<Rightarrow> real) \<Rightarrow> created_obj \<Rightarrow> nat \<Rightarrow> created_obj \<times> nat" where
  "attachMoons random obj n =
     (case moons (data obj) of
        None \<Rightarrow> (obj, n)
      | Some ms \<Rightarrow>
          (let (cs, n') = moonMeshes random ms n
           in (obj\<lparr>mesh := (mesh obj)\<lparr>children := children (mesh obj) @ cs\<rparr>\<rparr>, n')))"

fun attachAllMoons :: "(nat \<Rightarrow> real) \<Rightarrow> created_obj list \<Rightarrow> nat \<Rightarrow> created_obj list \<times> nat" where
  "attachAllMoons random [] n = ([], n)"
| "attachAllMoons random (obj # objs) n =
     (let (obj', n') = attachMoons random obj n;
          (objs', n'') = attachAllMoons random objs n'
      in (obj' # objs', n''))"

section \<open>The per-frame update of planets and moons\<close>

text \<open>
  The body of \<^verbatim>\<open>obj.mesh.children.forEach\<close>: a child that is a moon advances its angle and
  gets its \<open>x\<close> and \<open>z\<close> from it; \<open>y\<close> is not written. The fields of a
  \<^verbatim>\<open>Vector3\<close> are \<open>vx\<close>, \<open>vy\<close>, \<open>vz\<close> here.
\<close>

definition animateChild :: "real \<Rightarrow> real \<Rightarrow> child \<Rightarrow> child" where
  "animateChild dt t c =
     (if isMoon c then
        (case orbit_params c of
           None \<Rightarrow> c
         | Some mo \<Rightarrow>
             (let mo' = mo\<lparr>angle := angle mo + orbit_speed mo * dt * t\<rparr>
              in c\<lparr>orbit_params := Some mo',
                   position := (position c)\<lparr>vx := sin (angle mo') * orbit_distance mo',
                                            vz := cos (angle mo') * orbit_distance mo'\<rparr>\<rparr>))
      else c)"

text \<open>The body of \<^verbatim>\<open>created.forEach\<close> in \<^verbatim>\<open>renderLoop\<close>.\<close>

definition animatePlanet :: "real \<Rightarrow> real \<Rightarrow> created_obj \<Rightarrow> created_obj" where
  "animatePlanet dt t obj =
     (let p = data obj
      in obj\<lparr>mesh := (mesh obj)\<lparr>mesh_quaternion := rotateY (speed p * dt * t) (mesh_quaternion (mesh obj)),
                                 children := map (animateChild dt t) (children (mesh obj))\<rparr>,
             orbit := (orbit obj)\<lparr>rotation_y := rotation_y (orbit obj) + speed p * dt * 0.2 * t\<rparr>\<rparr>)"

text \<open>
  \<^verbatim>\<open>created.find(c => c.data.name === 'Saturn')\<close> and the rotation of its ring: the first
  entry named Saturn is the one found, and nothing happens when it has no ring.
\<close>

fun rotateSaturnRing :: "real \<Rightarrow> created_obj list \<Rightarrow> created_obj list" where
  "rotateSaturnRing t [] = []"
| "rotateSaturnRing t (c # cs) =
     (if name (data c) = ''Saturn'' then
        (case ring (mesh c) of
           None \<Rightarrow> c # cs
         | Some r \<Rightarrow> c\<lparr>mesh := (mesh c)\<lparr>ring := Some (r\<lparr>rotation_y := rotation_y r + 0.001 * t\<rparr>)\<rparr>\<rparr> # cs)
      else c # rotateSaturnRing t cs)"

section \<open>The procedural fields\<close>

text \<open>
  \<^verbatim>\<open>createSaturnRing\<close>: 700 rocks, four draws each (angle, radius, height, scale), in a group
  tilted by 12 degrees that becomes a child of the planet mesh and its \<^verbatim>\<open>userData.ring\<close>.
\<close>

definition ringRock :: "(nat \<Rightarrow> real) \<Rightarrow> real \<Rightarrow> real \<Rightarrow> nat \<Rightarrow> rock" where
  "ringRock random innerRadius outerRadius n =
     (let a = random n * pi * 2;
          r = innerRadius + random (n + 1) * (outerRadius - innerRadius);
          h = (random (n + 2) - 0.5) * 0.5
      in \<lparr>rock_position = \<lparr>vx = cos a * r, vy = h, vz = sin a * r\<rparr>,
          rock_scale = 0.1 + random (n + 3) * 0.3\<rparr>)"

definition createSaturnRing :: "(nat \<Rightarrow> real) \<Rightarrow> planet_mesh \<Rightarrow> nat \<Rightarrow> planet_mesh \<times> nat" where
  "createSaturnRing random saturnMesh n =
     (let innerRadius = mesh_scale saturnMesh * 0.3;
          outerRadius = mesh_scale saturnMesh * 0.55;
          ringGroup = \<lparr>rotation_x = degToRad 12, rotation_y = 0, rotation_z = 0,
                       rocks = map (\<lambda>i. ringRock random innerRadius outerRadius (n + 4 * i)) [0..<700]\<rparr>
      in (saturnMesh\<lparr>children := children saturnMesh @
                          [\<lparr>position = \<lparr>vx = 0, vy = 0, vz = 0\<rparr>, child_scale = 1,
                            isMoon = False, orbit_params = None\<rparr>],
                      ring := Some ringGroup\<rparr>,
          n + 4 * 700))"

text \<open>
  \<^verbatim>\<open>createAsteroidBelt\<close>. An option that is left out takes the default of the destructuring
  pattern. An instance is kept as the position, scale and Euler rotation that the code gives
  the \<^verbatim>\<open>dummy\<close> object before it writes the instance matrix. Each instance makes eight draws,
  in the order of the source: angle, \<open>u\<close>, eccentricity, height, scale and three rotation
  angles. \<open>belt_r\<close> and \<open>belt_ecc\<close> are the constants \<^verbatim>\<open>r\<close> and \<^verbatim>\<open>ecc\<close> of the loop body.
\<close>

record belt_options =
  opt_innerRadius :: "real option"
  opt_outerRadius :: "real option"
  opt_thickness :: "real option"
  opt_count :: "nat option"
  opt_minScale :: "real option"
  opt_maxScale :: "real option"

record belt_instance =
  inst_position :: vector3
  inst_scale :: real
  inst_rotation :: vector3

record belt =
  belt_rotation_x :: real
  belt_rotation_y :: real
  instances :: "belt_instance list"

definition belt_r :: "real \<Rightarrow> real \<Rightarrow> real \<Rightarrow> real" where
  "belt_r innerRadius outerRadius u =
     sqrt (u * (outerRadius * outerRadius - innerRadius * innerRadius) + innerRadius * innerRadius)"

definition belt_ecc :: "real \<Rightarrow> real \<Rightarrow> real \<Rightarrow> real" where
  "belt_ecc innerRadius outerRadius u = (u - 0.5) * (outerRadius - innerRadius) * 0.03"

definition beltInstance ::
  "(nat \<Rightarrow> real) \<Rightarrow> real \<Rightarrow> real \<Rightarrow> real \<Rightarrow> real \<Rightarrow> real \<Rightarrow> nat \<Rightarrow> belt_instance" where
  "beltInstance random innerRadius outerRadius thickness minScale maxScale n =
     (let a = random n * pi * 2;
          r = belt_r innerRadius outerRadius (random (n + 1));
          ecc = belt_ecc innerRadius outerRadius (random (n + 2));
          px = cos a * (r + ecc);
          pz = sin a * (r + ecc);
          py = (random (n + 3) - 0.5) * thickness;
          s = minScale + random (n + 4) * (maxScale - minScale)
      in \<lparr>inst_position = \<lparr>vx = px, vy = py, vz = pz\<rparr>,
          inst_scale = s,
          inst_rotation = \<lparr>vx = random (n + 5) * pi, vy = random (n + 6) * pi,
                            vz = random (n + 7) * pi\<rparr>\<rparr>)"

definition createAsteroidBelt :: "(nat \<Rightarrow> real) \<Rightarrow> belt_options \<Rightarrow> nat \<Rightarrow> belt \<times> nat" where
  "createAsteroidBelt random options n =
     (let innerRadius = nullish (opt_innerRadius options) 28;
          outerRadius = nullish (opt_outerRadius options) 36;
          thickness = nullish (opt_thickness options) 2.0;
          count = nullish (opt_count options) 2000;
          minScale = nullish (opt_minScale options) 0.05;
          maxScale = nullish (opt_maxScale options) 0.25
      in (\<lparr>belt_rotation_x = degToRad 2, belt_rotation_y = 0,
           instances = map (\<lambda>i. beltInstance random innerRadius outerRadius thickness
                                   minScale maxScale (n + 8 * i)) [0..<count]\<rparr>,
          n + 8 * count))"

text \<open>The settings object \<^verbatim>\<open>params\<close> that the panel edits between frames.\<close>

record params =
  showOrbits :: bool
  timeScale :: "real option"
  spaceDustEnabled :: bool
  spaceDustCount :: nat
  spaceDustSpeed :: real
  spaceDustSize :: real
  spaceDustSpread :: real
  spaceDustMinScale :: real
  spaceDustMaxScale :: real
  spaceDustRotSpeed :: real
  labelsEnabled :: bool
  labelSize :: real

definition initialParams :: params where
  "initialParams =
     \<lparr>showOrbits = True, timeScale = Some 1.0, spaceDustEnabled = True, spaceDustCount = 800,
      spaceDustSpeed = 0.6, spaceDustSize = 1.5, spaceDustSpread = 40, spaceDustMinScale = 0.05,
      spaceDustMaxScale = 0.22, spaceDustRotSpeed = 1.2, labelsEnabled = True, labelSize = 0.6\<rparr>"

text \<open>
  \<^verbatim>\<open>createSpacePebbles\<close>. The source keeps five parallel arrays of \<^verbatim>\<open>count\<close> entries
  (\<^verbatim>\<open>pos\<close>, \<^verbatim>\<open>scale\<close>, \<^verbatim>\<open>rotAxis\<close>, \<^verbatim>\<open>rotSpeed\<close>, \<^verbatim>\<open>rotAngle\<close>) and the instance matrices; the model
  keeps one record per index, so \<^verbatim>\<open>pos.length\<close> is the length of \<open>pebbles\<close>. The instance
  matrix is kept as the position, quaternion and scale it is composed from. Each pebble makes
  nine draws.
\<close>

record transform =
  t_position :: vector3
  t_quaternion :: quaternion
  t_scale :: real

record pebble =
  pos :: vector3
  pebble_scale :: real
  rotAxis :: vector3
  rotSpeed :: real
  rotAngle :: real
  matrix :: transform

record space_dust =
  visible :: bool
  pebbles :: "pebble list"
  spread :: real
  near :: real
  far :: real
  sMin :: real
  sMax :: real

record pebble_options =
  opts_count :: "nat option"
  opts_spread :: "real option"
  opts_near :: "real option"
  opts_far :: "real option"
  opts_minScale :: "real option"
  opts_maxScale :: "real option"

definition rnd :: "real \<Rightarrow> real \<Rightarrow> real \<Rightarrow> real" where
  "rnd a b u = a + u * (b - a)"

definition writeTransform :: "pebble \<Rightarrow> pebble" where
  "writeTransform pb =
     pb\<lparr>matrix := \<lparr>t_position = pos pb,
                    t_quaternion = setFromAxisAngle (rotAxis pb) (rotAngle pb),
                    t_scale = pebble_scale pb\<rparr>\<rparr>"

definition newPebble ::
  "(nat \<Rightarrow> real) \<Rightarrow> params \<Rightarrow> real \<Rightarrow> real \<Rightarrow> real \<Rightarrow> real \<Rightarrow> real \<Rightarrow> nat \<Rightarrow> pebble" where
  "newPebble random p spread' near' far' sMin' sMax' n =
     writeTransform
       \<lparr>pos = \<lparr>vx = rnd (- spread' * 0.5) (spread' * 0.5) (random n),
                vy = rnd (- spread' * 0.5) (spread' * 0.5) (random (n + 1)),
                vz = - near' - random (n + 2) * (far' - near')\<rparr>,
        pebble_scale = rnd sMin' sMax' (random (n + 3)),
        rotAxis = normalize \<lparr>vx = random (n + 4), vy = random (n + 5), vz = random (n + 6)\<rparr>,
        rotSpeed = rnd 0.3 (orElse (spaceDustRotSpeed p) 1.2) (random (n + 7)),
        rotAngle = random (n + 8) * pi * 2,
        matrix = \<lparr>t_position = \<lparr>vx = 0, vy = 0, vz = 0\<rparr>, t_quaternion = identityQ, t_scale = 1\<rparr>\<rparr>"

definition createSpacePebbles ::
  "(nat \<Rightarrow> real) \<Rightarrow> params \<Rightarrow> pebble_options \<Rightarrow> nat \<Rightarrow> space_dust \<times> nat" where
  "createSpacePebbles random p opts n =
     (let count = nullish (opts_count opts) (spaceDustCount p);
          spread' = nullish (opts_spread opts) (spaceDustSpread p);
          near' = nullish (opts_near opts) 2;
          far' = nullish (opts_far opts) 60;
          sMin' = nullish (opts_minScale opts) (spaceDustMinScale p);
          sMax' = nullish (opts_maxScale opts) (spaceDustMaxScale p)
      in (\<lparr>visible = True,
           pebbles = map (\<lambda>i. newPebble random p spread' near' far' sMin' sMax' (n + 9 * i)) [0..<count],
           spread = spread', near = near', far = far', sMin = sMin', sMax = sMax'\<rparr>,
          n + 9 * count))"

text \<open>The options both call sites of \<^verbatim>\<open>createSpacePebbles\<close> pass.\<close>

definition pebbleOptions :: "params \<Rightarrow> pebble_options" where
  "pebbleOptions p =
     \<lparr>opts_count = Some (spaceDustCount p), opts_spread = Some (spaceDustSpread p),
      opts_near = Some 2, opts_far = Some 60,
      opts_minScale = Some (spaceDustMinScale p), opts_maxScale = Some (spaceDustMaxScale p)\<rparr>"

section \<open>Labels\<close>

text \<open>
  An entry of \<^verbatim>\<open>scene.userData._labels\<close>. The label is a child of an anchor that is a child of
  the planet mesh \<open>planetObj\<close> (an index into \<^verbatim>\<open>created\<close>). \<open>syncCalls\<close> counts the calls of the
  text library's \<^verbatim>\<open>sync\<close>, which regenerates the glyph geometry.
\<close>

record label =
  label_text :: string
  label_visible :: bool
  label_quaternion :: quaternion
  fontSize :: real
  syncCalls :: nat
  planetObj :: nat

definition makeLabelMesh :: "string \<Rightarrow> real \<Rightarrow> nat \<Rightarrow> label" where
  "makeLabelMesh labelText size' i =
     \<lparr>label_text = labelText, label_visible = True, label_quaternion = identityQ,
      fontSize = size', syncCalls = 1, planetObj = i\<rparr>"

definition addAnchor :: "created_obj \<Rightarrow> created_obj" where
  "addAnchor obj =
     (let r = radius (data obj)
      in obj\<lparr>mesh := (mesh obj)\<lparr>children := children (mesh obj) @
               [\<lparr>position = \<lparr>vx = r * 1.2, vy = r * 0.9, vz = 0\<rparr>, child_scale = 1,
                 isMoon = False, orbit_params = None\<rparr>]\<rparr>\<rparr>)"

definition addPlanetLabels :: "params \<Rightarrow> created_obj list \<Rightarrow> created_obj list \<times> label list" where
  "addPlanetLabels p createdList =
     (map addAnchor createdList,
      map (\<lambda>i. makeLabelMesh (name (data (createdList ! i))) (orElse (labelSize p) 0.6) i)
        [0..<length createdList])"

section \<open>The scene and the frame callback\<close>

text \<open>
  What the frame callback reads and writes: \<^verbatim>\<open>created\<close> and, under \<^verbatim>\<open>scene.userData\<close>,
  \<^verbatim>\<open>asteroidBelt\<close>, \<^verbatim>\<open>spaceDust\<close> and \<^verbatim>\<open>_labels\<close>; \<open>randomCalls\<close> is the number of draws of
  \<^verbatim>\<open>Math.random()\<close> made so far.
\<close>

record scene =
  created :: "created_obj list"
  asteroidBelt :: "belt option"
  spaceDust :: "space_dust option"
  labels :: "label list option"
  randomCalls :: nat

text \<open>
  The body of the \<^verbatim>\<open>for\<close> loop over the pebbles: move, recycle behind the near plane with two
  fresh draws (first \<open>x\<close>, then \<open>y\<close>), spin, write the transform.
\<close>

definition updatePebble ::
  "(nat \<Rightarrow> real) \<Rightarrow> space_dust \<Rightarrow> real \<Rightarrow> real \<Rightarrow> pebble \<Rightarrow> nat \<Rightarrow> pebble \<times> nat" where
  "updatePebble random dustObj dtMove dt pb n =
     (let pb1 = pb\<lparr>pos := (pos pb)\<lparr>vz := vz (pos pb) + dtMove\<rparr>\<rparr>;
          (pb2, n') =
            (if vz (pos pb1) > - near dustObj then
               (pb1\<lparr>pos := \<lparr>vx = (random n - 0.5) * spread dustObj,
                             vy = (random (n + 1) - 0.5) * spread dustObj,
                             vz = - far dustObj\<rparr>\<rparr>, n + 2)
             else (pb1, n));
          pb3 = pb2\<lparr>rotAngle := rotAngle pb2 + rotSpeed pb2 * dt\<rparr>
      in (writeTransform pb3, n'))"

fun updatePebbles ::
  "(nat \<Rightarrow> real) \<Rightarrow> space_dust \<Rightarrow> real \<Rightarrow> real \<Rightarrow> pebble list \<Rightarrow> nat \<Rightarrow> pebble list \<times> nat" where
  "updatePebbles random dustObj dtMove dt [] n = ([], n)"
| "updatePebbles random dustObj dtMove dt (pb # pbs) n =
     (let (pb', n') = updatePebble random dustObj dtMove dt pb n;
          (pbs', n'') = updatePebbles random dustObj dtMove dt pbs n'
      in (pb' # pbs', n''))"

text \<open>
  The enabled branch up to the end of the loop: the step \<^verbatim>\<open>dtMove\<close> from the time scale and
  the dust speed, then the loop over all pebbles.
\<close>

definition animatePebbles ::
  "(nat \<Rightarrow> real) \<Rightarrow> params \<Rightarrow> real \<Rightarrow> space_dust \<Rightarrow> nat \<Rightarrow> space_dust \<times> nat" where
  "animatePebbles random p dt dustObj n =
     (let tScale = nullish (timeScale p) 1 * orElse (spaceDustSpeed p) 0.6;
          dtMove = tScale * dt;
          (pbs, n') = updatePebbles random dustObj dtMove dt (pebbles dustObj) n
      in (dustObj\<lparr>pebbles := pbs\<rparr>, n'))"

text \<open>The test for a live change of the settings, which makes the frame rebuild the field.\<close>

definition configChanged :: "params \<Rightarrow> space_dust \<Rightarrow> bool" where
  "configChanged p dustObj =
     (spaceDustCount p \<noteq> length (pebbles dustObj) \<or>
      spaceDustSpread p \<noteq> spread dustObj \<or>
      spaceDustMinScale p \<noteq> sMin dustObj \<or>
      spaceDustMaxScale p \<noteq> sMax dustObj)"

text \<open>The block \<^verbatim>\<open>if (dustObj) { ... }\<close>: the visibility toggle, the loop, the rebuild.\<close>

definition updateSpaceDust :: "(nat \<Rightarrow> real) \<Rightarrow> params \<Rightarrow> real \<Rightarrow> scene \<Rightarrow> scene" where
  "updateSpaceDust random p dt s =
     (case spaceDust s of
        None \<Rightarrow> s
      | Some dustObj \<Rightarrow>
          (let enabled = spaceDustEnabled p;
               d1 = dustObj\<lparr>visible := enabled\<rparr>
           in if enabled then
                (let (d2, n) = animatePebbles random p dt d1 (randomCalls s)
                 in if configChanged p d2
                    then (let (d3, n') = createSpacePebbles random p (pebbleOptions p) n
                          in s\<lparr>spaceDust := Some d3, randomCalls := n'\<rparr>)
                    else s\<lparr>spaceDust := Some d2, randomCalls := n\<rparr>)
              else s\<lparr>spaceDust := Some d1\<rparr>))"

text \<open>The labels block: visibility, then for each label the copy of the camera's quaternion
  and the change of size.\<close>

definition billboard :: "params \<Rightarrow> quaternion \<Rightarrow> label \<Rightarrow> label" where
  "billboard p cameraQ l =
     (let l1 = l\<lparr>label_quaternion := cameraQ\<rparr>;
          wantSize = orElse (labelSize p) 0.6
      in if fontSize l1 \<noteq> 0 \<and> \<bar>fontSize l1 - wantSize\<bar> > 0.001
         then l1\<lparr>fontSize := wantSize, syncCalls := Suc (syncCalls l1)\<rparr>
         else l1)"

definition updateLabels :: "params \<Rightarrow> quaternion \<Rightarrow> scene \<Rightarrow> scene" where
  "updateLabels p cameraQ s =
     (case labels s of
        None \<Rightarrow> s
      | Some ls \<Rightarrow>
          (let show = labelsEnabled p;
               ls1 = map (\<lambda>l. l\<lparr>label_visible := show\<rparr>) ls
           in if show then s\<lparr>labels := Some (map (billboard p cameraQ) ls1)\<rparr>
              else s\<lparr>labels := Some ls1\<rparr>))"

text \<open>
  \<^verbatim>\<open>renderLoop\<close>. Its inputs are the settings \<open>p\<close>, the camera's quaternion \<open>cameraQ\<close> as the
  camera controls left it, and \<open>dt\<close>, the value of \<^verbatim>\<open>clock.getDelta()\<close>. Drawing the frame and
  scheduling the next one change nothing of the scene.
\<close>

definition renderLoop :: "(nat \<Rightarrow> real) \<Rightarrow> params \<Rightarrow> quaternion \<Rightarrow> real \<Rightarrow> scene \<Rightarrow> scene" where
  "renderLoop random p cameraQ dt s =
     (let t = nullish (timeScale p) 1.0;
          s1 = s\<lparr>created := rotateSaturnRing t (map (animatePlanet dt t) (created s))\<rparr>;
          s2 = (case asteroidBelt s1 of
                  None \<Rightarrow> s1
                | Some b \<Rightarrow> s1\<lparr>asteroidBelt := Some (b\<lparr>belt_rotation_y := belt_rotation_y b + 0.02 * dt * t\<rparr>)\<rparr>);
          s3 = updateSpaceDust random p dt s2
      in updateLabels p cameraQ s3)"

text \<open>A run of the callback: one entry per frame the host schedules.\<close>

record frame =
  frame_params :: params
  frame_camera :: quaternion
  frame_dt :: real

fun runFrames :: "(nat \<Rightarrow> real) \<Rightarrow> frame list \<Rightarrow> scene \<Rightarrow> scene" where
  "runFrames random [] s = s"
| "runFrames random (f # fs) s =
     runFrames random fs (renderLoop random (frame_params f) (frame_camera f) (frame_dt f) s)"

section \<open>Startup\<close>

text \<open>The \<^verbatim>\<open>planets\<close> array of the source.\<close>

definition planets :: "planet_data list" where
  "planets =
     [\<lparr>name = ''Mercury'', radius = 0.40, distance = 8, speed = 0.02076050, tilt = 0.034,
       moons = Some []\<rparr>,
      \<lparr>name = ''Venus'', radius = 0.95, distance = 12, speed = 0.00812760, tilt = 177.3,
       moons = Some []\<rparr>,
      \<lparr>name = ''Earth'', radius = 1.0, distance = 18, speed = 0.005, tilt = 23.5,
       moons = Some [\<lparr>moon_name = ''Moon'', moon_radius = 0.27, moon_distance = 2.5, moon_speed = 0.015\<rparr>]\<rparr>,
      \<lparr>name = ''Mars'', radius = 0.55, distance = 25, speed = 0.00281185, tilt = 25.2,
       moons = Some [\<lparr>moon_name = ''Phobos'', moon_radius = 0.03, moon_distance = 1.1, moon_speed = 1.28473354\<rparr>,
                     \<lparr>moon_name = ''Deimos'', moon_radius = 0.02, moon_distance = 1.6, moon_speed = 0.32448931\<rparr>]\<rparr>,
      \<lparr>name = ''Jupiter'', radius = 5.2, distance = 40, speed = 0.00042144, tilt = 3.1,
       moons = Some [\<lparr>moon_name = ''Io'', moon_radius = 0.29, moon_distance = 3.2, moon_speed = 0.02306162\<rparr>,
                     \<lparr>moon_name = ''Europa'', moon_radius = 0.25, moon_distance = 4.5, moon_speed = 0.01155051\<rparr>,
                     \<lparr>moon_name = ''Ganymede'', moon_radius = 0.42, moon_distance = 6.5, moon_speed = 0.00322284\<rparr>,
                     \<lparr>moon_name = ''Callisto'', moon_radius = 0.38, moon_distance = 9.0, moon_speed = 0.00134651\<rparr>]\<rparr>,
      \<lparr>name = ''Saturn'', radius = 4.6, distance = 58, speed = 0.00016964, tilt = 26.7,
       moons = Some [\<lparr>moon_name = ''Titan'', moon_radius = 0.40, moon_distance = 4.0, moon_speed = 0.00128921\<rparr>,
                     \<lparr>moon_name = ''Rhea'', moon_radius = 0.12, moon_distance = 2.4, moon_speed = 0.00361402\<rparr>]\<rparr>,
      \<lparr>name = ''Uranus'', radius = 2.0, distance = 78, speed = 0.0000595, tilt = 97.8,
       moons = Some [\<lparr>moon_name = ''Titania'', moon_radius = 0.125, moon_distance = 2.8, moon_speed = 0.04707443\<rparr>,
                     \<lparr>moon_name = ''Oberon'', moon_radius = 0.12, moon_distance = 4.2, moon_speed = 0.03044121\<rparr>]\<rparr>,
      \<lparr>name = ''Neptune'', radius = 1.95, distance = 98, speed = 0.0000303, tilt = 28.3,
       moons = Some [\<lparr>moon_name = ''Triton'', moon_radius = 0.21, moon_distance = 3.0, moon_speed = 0.06973456\<rparr>]\<rparr>]"

text \<open>\<^verbatim>\<open>Array.prototype.findIndex\<close>; \<open>None\<close> is the result \<open>-1\<close>.\<close>

fun findIndex :: "('a \<Rightarrow> bool) \<Rightarrow> 'a list \<Rightarrow> nat option" where
  "findIndex P [] = None"
| "findIndex P (a # as) = (if P a then Some 0 else map_option Suc (findIndex P as))"

text \<open>
  The assembly of the scene, in the order of the module: the planets, their moons, the
  labels, the asteroid belt, Saturn's ring. Orbit lines, lights, textures and the camera's
  projection are left out: the frame callback does not read them.
\<close>

definition addSaturnRing ::
  "(nat \<Rightarrow> real) \<Rightarrow> planet_data list \<Rightarrow> created_obj list \<Rightarrow> nat \<Rightarrow> created_obj list \<times> nat" where
  "addSaturnRing random ps cs n =
     (case findIndex (\<lambda>p. name p = ''Saturn'') ps of
        None \<Rightarrow> (cs, n)
      | Some saturnIndex \<Rightarrow>
          if saturnIndex < length cs then
            (let (saturnMesh, n') = createSaturnRing random (mesh (cs ! saturnIndex)) n
             in (cs[saturnIndex := (cs ! saturnIndex)\<lparr>mesh := saturnMesh\<rparr>], n'))
          else (cs, n))"

definition beltOptions :: belt_options where
  "beltOptions =
     \<lparr>opt_innerRadius = Some 28, opt_outerRadius = Some 33, opt_thickness = Some 2.0,
      opt_count = Some 2000, opt_minScale = Some 0.04, opt_maxScale = Some 0.18\<rparr>"

definition buildScene :: "(nat \<Rightarrow> real) \<Rightarrow> planet_data list \<Rightarrow> scene" where
  "buildScene random ps =
     (let created0 = map buildPlanetWithTilt ps;
          (created1, n1) = attachAllMoons random created0 0;
          (created2, ls) = addPlanetLabels initialParams created1;
          (b, n2) = createAsteroidBelt random beltOptions n1;
          (created3, n3) = addSaturnRing random ps created2 n2
      in \<lparr>created = created3, asteroidBelt = Some b, spaceDust = None, labels = Some ls,
          randomCalls = n3\<rparr>)"

text \<open>
  The module from its first line to the first call of \<^verbatim>\<open>renderLoop\<close>. \<open>canvas\<close> is the result
  of \<^verbatim>\<open>document.querySelector('#canvas')\<close>; \<open>cameraQ\<close> and \<open>dt\<close> are the camera's quaternion and
  the clock's delta at the first frame.
\<close>

datatype element = HTMLCanvasElement

datatype error = Error string

definition main ::
  "(nat \<Rightarrow> real) \<Rightarrow> element option \<Rightarrow> quaternion \<Rightarrow> real \<Rightarrow> error + scene" where
  \<open>main random canvas cameraQ dt =
     (let s0 = buildScene random planets
      in case canvas of
           None \<Rightarrow> Inl (Error ''Canvas with id="canvas" not found'')
         | Some c \<Rightarrow>
             (let (dust, n) = createSpacePebbles random initialParams (pebbleOptions initialParams)
                                (randomCalls s0);
                  s1 = s0\<lparr>spaceDust := Some dust, randomCalls := n\<rparr>
              in Inr (renderLoop random initialParams cameraQ dt s1)))\<close>

text \<open>
  The orientation of a label in the world, as the scene graph composes it: the label is a
  child of its anchor (never rotated), the anchor of the planet mesh, the mesh of the tilt
  group, the tilt group of the orbit group, and the orbit group of the scene. All scales on
  the way are uniform, so the rotations compose as the product of the quaternions. The camera
  is a child of the scene: its quaternion is its orientation in the world.
\<close>

definition groupQuaternion :: "group \<Rightarrow> quaternion" where
  "groupQuaternion g = setFromEuler (rotation_x g) (rotation_y g) (rotation_z g)"

definition parentWorldQuaternion :: "created_obj \<Rightarrow> quaternion" where
  "parentWorldQuaternion obj =
     multiply (multiply (groupQuaternion (orbit obj)) (groupQuaternion (tilt_group obj)))
       (mesh_quaternion (mesh obj))"

definition labelWorldQuaternion :: "created_obj \<Rightarrow> label \<Rightarrow> quaternion" where
  "labelWorldQuaternion obj l = multiply (parentWorldQuaternion obj) (label_quaternion l)"

section \<open>Notions used in the statements\<close>

text \<open>The time a frame adds, \<^verbatim>\<open>dt * t\<close>, and a child's state after a run of frames.\<close>

definition frameTime :: "frame \<Rightarrow> real" where
  "frameTime f = frame_dt f * nullish (timeScale (frame_params f)) 1"

definition animateChildren :: "frame list \<Rightarrow> child \<Rightarrow> child" where
  "animateChildren fs c =
     foldl (\<lambda>c f. animateChild (frame_dt f) (nullish (timeScale (frame_params f)) 1) c) c fs"

text \<open>The ring the frame callback rotates: \<^verbatim>\<open>saturnObj && saturnObj.mesh.userData.ring\<close>.\<close>

definition saturnRing :: "scene \<Rightarrow> group option" where
  "saturnRing s =
     (case find (\<lambda>c. name (data c) = ''Saturn'') (created s) of
        None \<Rightarrow> None
      | Some saturnObj \<Rightarrow> ring (mesh saturnObj))"

text \<open>A pebble that the step \<open>dtMove\<close> takes past the near plane of the field.\<close>

definition recycled :: "space_dust \<Rightarrow> real \<Rightarrow> pebble \<Rightarrow> bool" where
  "recycled dustObj dtMove pb = (vz (pos pb) + dtMove > - near dustObj)"

definition dustMove :: "params \<Rightarrow> real \<Rightarrow> real" where
  "dustMove p dt = nullish (timeScale p) 1 * orElse (spaceDustSpeed p) 0.6 * dt"

text \<open>
  Two unit quaternions give the same orientation when they are equal or opposite. A label
  faces the observer exactly when its orientation in the world is the camera's.
\<close>

definition negateQ :: "quaternion \<Rightarrow> quaternion" where
  "negateQ q = \<lparr>qx = - qx q, qy = - qy q, qz = - qz q, qw = - qw q\<rparr>"

definition sameOrientation :: "quaternion \<Rightarrow> quaternion \<Rightarrow> bool" where
  "sameOrientation a b = (a = b \<or> a = negateQ b)"

definition lengthSq :: "quaternion \<Rightarrow> real" where
  "lengthSq q = qx q * qx q + qy q * qy q + qz q * qz q + qw q * qw q"

section \<open>Example scenes\<close>

definition earthObj :: created_obj where
  "earthObj = buildPlanetWithTilt
     \<lparr>name = ''Earth'', radius = 1.0, distance = 18, speed = 0.005, tilt = 23.5, moons = Some []\<rparr>"

definition marsData :: planet_data where
  "marsData =
     \<lparr>name = ''Mars'', radius = 0.55, distance = 25, speed = 0.00281185, tilt = 25.2,
      moons = Some [\<lparr>moon_name = ''Phobos'', moon_radius = 0.03, moon_distance = 1.1, moon_speed = 1.28473354\<rparr>,
                    \<lparr>moon_name = ''Deimos'', moon_radius = 0.02, moon_distance = 1.6, moon_speed = 0.32448931\<rparr>]\<rparr>"

definition marsScene :: scene where
  "marsScene = \<lparr>created = fst (attachAllMoons (\<lambda>k. 0) [buildPlanetWithTilt marsData] 0),
                 asteroidBelt = None, spaceDust = None, labels = None, randomCalls = 2\<rparr>"

definition unitFrame :: frame where
  "unitFrame = \<lparr>frame_params = initialParams, frame_camera = identityQ, frame_dt = 1\<rparr>"

definition saturnData :: planet_data where
  "saturnData =
     \<lparr>name = ''Saturn'', radius = 4.6, distance = 58, speed = 0.00016964, tilt = 26.7,
      moons = Some []\<rparr>"

definition saturnScene :: scene where
  "saturnScene =
     \<lparr>created = [(buildPlanetWithTilt saturnData)
                    \<lparr>mesh := (mesh (buildPlanetWithTilt saturnData))
                               \<lparr>ring := Some (emptyGroup\<lparr>rotation_x := degToRad 12\<rparr>)\<rparr>\<rparr>],
      asteroidBelt = Some \<lparr>belt_rotation_x = degToRad 2, belt_rotation_y = 0, instances = []\<rparr>,
      spaceDust = None, labels = None, randomCalls = 0\<rparr>"

text \<open>A field of two pebbles built with every draw one half, and the settings it was built
  from.\<close>

definition dustParams :: params where
  "dustParams = initialParams\<lparr>spaceDustCount := 2\<rparr>"

definition dustField :: space_dust where
  "dustField = fst (createSpacePebbles (\<lambda>k. 1 / 2) dustParams (pebbleOptions dustParams) 0)"

definition dustScene :: scene where
  "dustScene = \<lparr>created = [], asteroidBelt = None, spaceDust = Some dustField, labels = None,
                 randomCalls = 18\<rparr>"

text \<open>
  A stream of draws in \<open>[0, 1)\<close> whose first 18 draws, the ones that built the field above, are one
  half and whose later draws all differ; and settings that ask for one pebble, so that a
  frame on the field of two rebuilds it.
\<close>

definition exampleDraws :: "nat \<Rightarrow> real" where
  "exampleDraws k = (if k < 18 then 1 / 2 else real k / (real k + 1))"

definition rebuildParams :: params where
  "rebuildParams = initialParams\<lparr>spaceDustCount := 1\<rparr>"

section \<open>Planets: self-rotation and revolution\<close>

lemma length_rotateSaturnRing [simp]: "length (rotateSaturnRing t cs) = length cs"
  by (induction cs) (auto split: option.splits)

lemma rotateSaturnRing_data [simp]: "map data (rotateSaturnRing t cs) = map data cs"
  by (induction cs) (auto split: option.splits)

lemma rotateSaturnRing_orbit [simp]: "map orbit (rotateSaturnRing t cs) = map orbit cs"
  by (induction cs) (auto split: option.splits)

lemma rotateSaturnRing_tilt [simp]: "map tilt_group (rotateSaturnRing t cs) = map tilt_group cs"
  by (induction cs) (auto split: option.splits)

lemma rotateSaturnRing_quaternion [simp]:
  "map (\<lambda>c. mesh_quaternion (mesh c)) (rotateSaturnRing t cs) = map (\<lambda>c. mesh_quaternion (mesh c)) cs"
  by (induction cs) (auto split: option.splits)

lemma rotateSaturnRing_children [simp]:
  "map (\<lambda>c. children (mesh c)) (rotateSaturnRing t cs) = map (\<lambda>c. children (mesh c)) cs"
  by (induction cs) (auto split: option.splits)

lemma created_updateSpaceDust [simp]: "created (updateSpaceDust random p dt s) = created s"
  by (simp add: updateSpaceDust_def Let_def split: option.splits prod.splits)

lemma created_updateLabels [simp]: "created (updateLabels p cameraQ s) = created s"
  by (simp add: updateLabels_def Let_def split: option.splits)

lemma created_renderLoop:
  "created (renderLoop random p cameraQ dt s) =
     rotateSaturnRing (nullish (timeScale p) 1) (map (animatePlanet dt (nullish (timeScale p) 1)) (created s))"
  by (simp add: renderLoop_def Let_def split: option.splits)

lemma nth_via_map: "i < length xs \<Longrightarrow> map f xs = map f ys \<Longrightarrow> f (xs ! i) = f (ys ! i)"
  by (metis length_map nth_map)

text \<open>Two turns about the Y axis compose to the turn by the sum of the angles.\<close>

lemma rotateY_about_y:
  "rotateY d (setFromAxisAngle yAxis a) = setFromAxisAngle yAxis (a + d)"
  by (simp add: rotateY_def setFromAxisAngle_def multiply_def yAxis_def Let_def add_divide_distrib sin_add cos_add)

text \<open>
  Claim C1. In one frame with delta \<open>dt\<close> and multiplier \<open>m\<close>, every planet's mesh is turned
  about its own Y axis by \<open>speed * dt * m\<close> (a mesh that stood at angle \<open>a\<close> about Y stands at
  \<open>a + speed * dt * m\<close>), and the rotation of its orbit group about Y grows by
  \<open>speed * dt * 0.2 * m\<close>, one fifth of the former.
\<close>

theorem planet_rotation_advance:
  assumes "i < length (created s)"
  shows "let m = nullish (timeScale p) 1;
             obj = created s ! i;
             obj' = created (renderLoop random p cameraQ dt s) ! i;
             spin = speed (data obj) * dt * m
         in mesh_quaternion (mesh obj') = rotateY spin (mesh_quaternion (mesh obj)) \<and>
            (\<forall>a. mesh_quaternion (mesh obj) = setFromAxisAngle yAxis a \<longrightarrow>
                 mesh_quaternion (mesh obj') = setFromAxisAngle yAxis (a + spin)) \<and>
            rotation_y (orbit obj') = rotation_y (orbit obj) + speed (data obj) * dt * 0.2 * m \<and>
            rotation_y (orbit obj') - rotation_y (orbit obj) = spin / 5"
proof -
  let ?m = "nullish (timeScale p) 1"
  let ?cs = "map (animatePlanet dt ?m) (created s)"
  have len: "i < length (rotateSaturnRing ?m ?cs)" using assms by simp
  have q: "mesh_quaternion (mesh (rotateSaturnRing ?m ?cs ! i)) = mesh_quaternion (mesh (?cs ! i))"
    using nth_via_map [OF len rotateSaturnRing_quaternion] .
  have o: "orbit (rotateSaturnRing ?m ?cs ! i) = orbit (?cs ! i)"
    using nth_via_map [OF len rotateSaturnRing_orbit] .
  have q': "mesh_quaternion (mesh (?cs ! i)) =
      rotateY (speed (data (created s ! i)) * dt * ?m) (mesh_quaternion (mesh (created s ! i)))"
    using assms by (simp add: animatePlanet_def Let_def)
  have o': "rotation_y (orbit (?cs ! i)) =
      rotation_y (orbit (created s ! i)) + speed (data (created s ! i)) * dt * 0.2 * ?m"
    using assms by (simp add: animatePlanet_def Let_def)
  show ?thesis
    unfolding Let_def created_renderLoop q o q' o'
    by (simp add: rotateY_about_y)
qed

text \<open>Earth (speed 0.005) for one frame with \<open>dt = 1\<close> and multiplier 1: the orbit group turns
  by 0.001 and the mesh by 0.005.\<close>

theorem planet_rotation_advance_witness:
  "rotation_y (orbit (created (renderLoop (\<lambda>k. 0) initialParams identityQ 1
      \<lparr>created = [earthObj], asteroidBelt = None, spaceDust = None, labels = None, randomCalls = 0\<rparr>) ! 0))
     = 0.001 \<and>
   mesh_quaternion (mesh (created (renderLoop (\<lambda>k. 0) initialParams identityQ 1
      \<lparr>created = [earthObj], asteroidBelt = None, spaceDust = None, labels = None, randomCalls = 0\<rparr>) ! 0))
     = setFromAxisAngle yAxis 0.005"
proof -
  let ?s = "\<lparr>created = [earthObj], asteroidBelt = None, spaceDust = None, labels = None, randomCalls = 0\<rparr>"
  let ?obj' = "created (renderLoop (\<lambda>k. 0) initialParams identityQ 1 ?s) ! 0"
  have i: "0 < length (created ?s)" by simp
  have a: "mesh_quaternion (mesh (created ?s ! 0)) = setFromAxisAngle yAxis 0"
    by (simp add: earthObj_def buildPlanetWithTilt_def identityQ_def setFromAxisAngle_def yAxis_def)
  have m: "nullish (timeScale initialParams) 1 = 1"
    by (simp add: initialParams_def nullish_def)
  have v: "speed (data (created ?s ! 0)) = 0.005"
    by (simp add: earthObj_def buildPlanetWithTilt_def)
  have r: "rotation_y (orbit (created ?s ! 0)) = 0"
    by (simp add: earthObj_def buildPlanetWithTilt_def emptyGroup_def)
  note T = planet_rotation_advance [OF i, of initialParams "\<lambda>k. 0" identityQ 1, unfolded Let_def m v r]
  from T a have "mesh_quaternion (mesh ?obj') = setFromAxisAngle yAxis (0 + 0.005 * 1 * 1)"
    by blast
  moreover from T have "rotation_y (orbit ?obj') = 0 + 0.005 * 1 * 0.2 * 1"
    by blast
  ultimately show ?thesis by simp
qed

section \<open>Moons\<close>

lemma children_renderLoop:
  assumes "i < length (created s)"
  shows "children (mesh (created (renderLoop random p cameraQ dt s) ! i)) =
         map (animateChild dt (nullish (timeScale p) 1)) (children (mesh (created s ! i)))"
proof -
  let ?m = "nullish (timeScale p) 1"
  let ?cs = "map (animatePlanet dt ?m) (created s)"
  have len: "i < length (rotateSaturnRing ?m ?cs)" using assms by simp
  have "children (mesh (rotateSaturnRing ?m ?cs ! i)) = children (mesh (?cs ! i))"
    using nth_via_map [OF len rotateSaturnRing_children] .
  then show ?thesis using assms
    by (simp add: created_renderLoop animatePlanet_def Let_def)
qed

lemma length_created_renderLoop [simp]:
  "length (created (renderLoop random p cameraQ dt s)) = length (created s)"
  by (simp add: created_renderLoop)

lemma length_created_runFrames [simp]:
  "length (created (runFrames random fs s)) = length (created s)"
  by (induction fs arbitrary: s) simp_all

lemma children_runFrames:
  "i < length (created s) \<Longrightarrow>
   children (mesh (created (runFrames random fs s) ! i)) =
   map (animateChildren fs) (children (mesh (created s ! i)))"
proof (induction fs arbitrary: s)
  case Nil
  then show ?case by (simp add: animateChildren_def)
next
  case (Cons f fs)
  then show ?case
    by (simp add: children_renderLoop animateChildren_def)
qed

lemma animateChild_moon:
  assumes "isMoon c" "orbit_params c = Some mo"
  shows "animateChild dt t c =
     c\<lparr>orbit_params := Some (mo\<lparr>angle := angle mo + orbit_speed mo * dt * t\<rparr>),
       position := (position c)\<lparr>vx := sin (angle mo + orbit_speed mo * dt * t) * orbit_distance mo,
                                vz := cos (angle mo + orbit_speed mo * dt * t) * orbit_distance mo\<rparr>\<rparr>"
  using assms by (simp add: animateChild_def Let_def)

text \<open>After a run of frames the phase is the start phase plus the speed times the sum of the
  frames' \<open>dt * t\<close>: nothing wraps it.\<close>

lemma animateChildren_moon:
  assumes "isMoon c" "orbit_params c = Some mo"
  shows "animateChildren (f # fs) c =
     (let phase = angle mo + orbit_speed mo * (\<Sum>g\<leftarrow>f # fs. frameTime g)
      in c\<lparr>orbit_params := Some (mo\<lparr>angle := phase\<rparr>),
           position := (position c)\<lparr>vx := sin phase * orbit_distance mo,
                                    vz := cos phase * orbit_distance mo\<rparr>\<rparr>)"
  using assms
proof (induction fs arbitrary: f c mo)
  case Nil
  then show ?case
    by (simp add: animateChildren_def animateChild_moon frameTime_def Let_def algebra_simps)
next
  case (Cons g gs)
  let ?c1 = "animateChild (frame_dt f) (nullish (timeScale (frame_params f)) 1) c"
  let ?mo1 = "mo\<lparr>angle := angle mo + orbit_speed mo * frame_dt f * nullish (timeScale (frame_params f)) 1\<rparr>"
  have c1: "?c1 = c\<lparr>orbit_params := Some ?mo1,
       position := (position c)\<lparr>vx := sin (angle ?mo1) * orbit_distance mo,
                                vz := cos (angle ?mo1) * orbit_distance mo\<rparr>\<rparr>"
    using Cons.prems by (simp add: animateChild_moon)
  have m1: "isMoon ?c1" and o1: "orbit_params ?c1 = Some ?mo1"
    using Cons.prems by (simp_all add: c1)
  have step: "animateChildren (f # g # gs) c = animateChildren (g # gs) ?c1"
    by (simp add: animateChildren_def)
  have P: "angle ?mo1 + orbit_speed ?mo1 * (\<Sum>h\<leftarrow>g # gs. frameTime h) =
      angle mo + orbit_speed mo * (\<Sum>h\<leftarrow>f # g # gs. frameTime h)"
    by (simp add: frameTime_def algebra_simps)
  show ?case
    unfolding step Cons.IH [OF m1 o1] Let_def P
    by (simp add: c1)
qed

text \<open>
  Claim C2. After any run of one or more frames, a moon's phase is its start phase plus
  \<open>speed * dt * m\<close> for each frame (so one frame adds \<open>speed * dt * m\<close>, and the phase is never
  wrapped or reset), and its position is \<open>(sin phase * distance, y, cos phase * distance)\<close>,
  where \<open>y\<close> is the height the moon had, which the update does not write and the construction
  sets to 0; so \<open>x\<^sup>2 + z\<^sup>2 = distance\<^sup>2\<close>.
\<close>

theorem moon_phase_and_position:
  assumes "i < length (created s)"
    and "j < length (children (mesh (created s ! i)))"
    and "isMoon (children (mesh (created s ! i)) ! j)"
    and "orbit_params (children (mesh (created s ! i)) ! j) = Some mo"
  shows "let c = children (mesh (created s ! i)) ! j;
             c' = children (mesh (created (runFrames random (f # fs) s) ! i)) ! j;
             phase = angle mo + orbit_speed mo * (\<Sum>g\<leftarrow>f # fs. frameTime g)
         in isMoon c' \<and>
            orbit_params c' = Some (mo\<lparr>angle := phase\<rparr>) \<and>
            position c' = \<lparr>vx = sin phase * orbit_distance mo, vy = vy (position c),
                           vz = cos phase * orbit_distance mo\<rparr> \<and>
            (vx (position c'))\<^sup>2 + (vz (position c'))\<^sup>2 = (orbit_distance mo)\<^sup>2 \<and>
            vy (position (makeMoonMesh m u)) = 0"
proof -
  let ?c = "children (mesh (created s ! i)) ! j"
  have "children (mesh (created (runFrames random (f # fs) s) ! i)) ! j = animateChildren (f # fs) ?c"
    using assms(1,2) by (simp only: children_runFrames nth_map)
  moreover have "(sin a * d)\<^sup>2 + (cos a * d)\<^sup>2 = d\<^sup>2" for a d :: real
  proof -
    have "(sin a * d)\<^sup>2 + (cos a * d)\<^sup>2 = ((sin a)\<^sup>2 + (cos a)\<^sup>2) * d\<^sup>2"
      by (simp only: power_mult_distrib distrib_right)
    also have "\<dots> = d\<^sup>2"
      by (simp only: sin_cos_squared_add mult_1)
    finally show ?thesis .
  qed
  ultimately show ?thesis
    using animateChildren_moon [OF assms(3,4), of f fs] assms(3)
    by (simp add: Let_def makeMoonMesh_def)
qed

lemma marsScene_children:
  "children (mesh (created marsScene ! 0)) =
     [\<lparr>position = \<lparr>vx = 1.1, vy = 0, vz = 0\<rparr>, child_scale = 0.03, isMoon = True,
       orbit_params = Some \<lparr>orbit_distance = 1.1, orbit_speed = 1.28473354, angle = 0\<rparr>\<rparr>,
      \<lparr>position = \<lparr>vx = 1.6, vy = 0, vz = 0\<rparr>, child_scale = 0.02, isMoon = True,
       orbit_params = Some \<lparr>orbit_distance = 1.6, orbit_speed = 0.32448931, angle = 0\<rparr>\<rparr>]"
  by (simp add: marsScene_def marsData_def buildPlanetWithTilt_def attachMoons_def makeMoonMesh_def Let_def)

text \<open>Phobos (distance 1.1, speed 1.28473354) from phase 0, one frame with \<open>dt = 1\<close>.\<close>

theorem moon_phase_and_position_witness:
  "orbit_params (children (mesh (created (runFrames (\<lambda>k. 0) [unitFrame] marsScene) ! 0)) ! 0) =
     Some \<lparr>orbit_distance = 1.1, orbit_speed = 1.28473354, angle = 1.28473354\<rparr> \<and>
   position (children (mesh (created (runFrames (\<lambda>k. 0) [unitFrame] marsScene) ! 0)) ! 0) =
     \<lparr>vx = sin 1.28473354 * 1.1, vy = 0, vz = cos 1.28473354 * 1.1\<rparr>"
proof -
  let ?mo = "\<lparr>orbit_distance = 1.1, orbit_speed = 1.28473354, angle = 0\<rparr>"
  have i: "0 < length (created marsScene)"
    by (simp add: marsScene_def attachMoons_def Let_def split: prod.splits)
  have j: "0 < length (children (mesh (created marsScene ! 0)))"
    by (simp add: marsScene_children)
  have m: "isMoon (children (mesh (created marsScene ! 0)) ! 0)"
    by (simp add: marsScene_children)
  have o: "orbit_params (children (mesh (created marsScene ! 0)) ! 0) = Some ?mo"
    by (simp add: marsScene_children)
  have t: "frameTime unitFrame = 1"
    by (simp add: frameTime_def unitFrame_def initialParams_def nullish_def)
  have y: "vy (position (children (mesh (created marsScene ! 0)) ! 0)) = 0"
    by (simp add: marsScene_children)
  note T = moon_phase_and_position [OF i j m o, of "\<lambda>k. 0" unitFrame "[]", unfolded Let_def]
  from T show ?thesis by (simp add: t y)
qed

section \<open>Ring and asteroid belt\<close>

lemma find_rotateSaturnRing:
  "(case find (\<lambda>c. name (data c) = ''Saturn'') (rotateSaturnRing t (map (animatePlanet dt t') cs)) of
      None \<Rightarrow> None | Some c \<Rightarrow> ring (mesh c)) =
   map_option (\<lambda>r. r\<lparr>rotation_y := rotation_y r + 0.001 * t\<rparr>)
     (case find (\<lambda>c. name (data c) = ''Saturn'') cs of None \<Rightarrow> None | Some c \<Rightarrow> ring (mesh c))"
  by (induction cs) (auto simp: animatePlanet_def Let_def split: option.splits)

lemma asteroidBelt_updateSpaceDust [simp]: "asteroidBelt (updateSpaceDust random p dt s) = asteroidBelt s"
  by (simp add: updateSpaceDust_def Let_def split: option.splits prod.splits)

lemma asteroidBelt_updateLabels [simp]: "asteroidBelt (updateLabels p cameraQ s) = asteroidBelt s"
  by (simp add: updateLabels_def Let_def split: option.splits)

lemma asteroidBelt_renderLoop:
  "asteroidBelt (renderLoop random p cameraQ dt s) =
     map_option (\<lambda>b. b\<lparr>belt_rotation_y := belt_rotation_y b + 0.02 * dt * nullish (timeScale p) 1\<rparr>)
       (asteroidBelt s)"
  by (simp add: renderLoop_def Let_def split: option.splits)

lemma saturnRing_renderLoop:
  "saturnRing (renderLoop random p cameraQ dt s) =
     map_option (\<lambda>r. r\<lparr>rotation_y := rotation_y r + 0.001 * nullish (timeScale p) 1\<rparr>) (saturnRing s)"
  unfolding saturnRing_def created_renderLoop by (rule find_rotateSaturnRing)

text \<open>
  Claim C6. In every frame the ring of the entry named Saturn turns by \<open>0.001 * m\<close>, whatever
  the delta: two frames with different deltas leave the same ring. The asteroid belt turns by
  \<open>0.02 * dt * m\<close>, so that two frames of \<open>dt\<close> and \<open>dt'\<close> turn it as far as one frame of
  \<open>dt + dt'\<close>.
\<close>

theorem ring_and_belt_rotation:
  "(saturnRing s = Some r \<longrightarrow>
      saturnRing (renderLoop random p cameraQ dt s) =
        Some (r\<lparr>rotation_y := rotation_y r + 0.001 * nullish (timeScale p) 1\<rparr>)) \<and>
   saturnRing (renderLoop random p cameraQ dt s) = saturnRing (renderLoop random p cameraQ dt' s) \<and>
   (asteroidBelt s = Some b \<longrightarrow>
      asteroidBelt (renderLoop random p cameraQ dt s) =
        Some (b\<lparr>belt_rotation_y := belt_rotation_y b + 0.02 * dt * nullish (timeScale p) 1\<rparr>)) \<and>
   asteroidBelt (renderLoop random p cameraQ dt' (renderLoop random p cameraQ dt s)) =
     asteroidBelt (renderLoop random p cameraQ (dt + dt') s)"
  by (cases "asteroidBelt s") (simp_all add: saturnRing_renderLoop asteroidBelt_renderLoop algebra_simps)

text \<open>Multiplier 2 and \<open>dt = 0.5\<close>: the ring turns by 0.002, the belt by 0.02.\<close>

theorem ring_and_belt_rotation_witness:
  "map_option rotation_y
     (saturnRing (renderLoop (\<lambda>k. 0) (initialParams\<lparr>timeScale := Some 2\<rparr>) identityQ 0.5 saturnScene)) =
     Some 0.002 \<and>
   map_option belt_rotation_y
     (asteroidBelt (renderLoop (\<lambda>k. 0) (initialParams\<lparr>timeScale := Some 2\<rparr>) identityQ 0.5 saturnScene)) =
     Some 0.02"
proof -
  let ?r = "emptyGroup\<lparr>rotation_x := degToRad 12\<rparr>"
  let ?b = "\<lparr>belt_rotation_x = degToRad 2, belt_rotation_y = 0, instances = []\<rparr>"
  have r: "saturnRing saturnScene = Some ?r"
    by (simp add: saturnRing_def saturnScene_def saturnData_def buildPlanetWithTilt_def)
  have b: "asteroidBelt saturnScene = Some ?b"
    by (simp add: saturnScene_def)
  have m: "nullish (timeScale (initialParams\<lparr>timeScale := Some 2\<rparr>)) 1 = 2"
    by (simp add: nullish_def)
  note T = ring_and_belt_rotation [of saturnScene ?r "\<lambda>k. 0" "initialParams\<lparr>timeScale := Some 2\<rparr>"
      identityQ "0.5" "0.5" ?b, unfolded m]
  from T r have "saturnRing (renderLoop (\<lambda>k. 0) (initialParams\<lparr>timeScale := Some 2\<rparr>) identityQ 0.5 saturnScene) =
      Some (?r\<lparr>rotation_y := rotation_y ?r + 0.001 * 2\<rparr>)"
    by blast
  moreover from T b have "asteroidBelt (renderLoop (\<lambda>k. 0) (initialParams\<lparr>timeScale := Some 2\<rparr>) identityQ 0.5 saturnScene) =
      Some (?b\<lparr>belt_rotation_y := belt_rotation_y ?b + 0.02 * 0.5 * 2\<rparr>)"
    by blast
  ultimately show ?thesis by (simp add: emptyGroup_def)
qed

section \<open>Axial tilt\<close>

lemma data_renderLoop: "map data (created (renderLoop random p cameraQ dt s)) = map data (created s)"
  by (simp add: created_renderLoop animatePlanet_def Let_def comp_def)

lemma tilt_renderLoop:
  "map tilt_group (created (renderLoop random p cameraQ dt s)) = map tilt_group (created s)"
  by (simp add: created_renderLoop animatePlanet_def Let_def comp_def)

lemma data_runFrames: "map data (created (runFrames random fs s)) = map data (created s)"
  by (induction fs arbitrary: s) (simp_all add: data_renderLoop)

lemma tilt_runFrames: "map tilt_group (created (runFrames random fs s)) = map tilt_group (created s)"
  by (induction fs arbitrary: s) (simp_all add: tilt_renderLoop)

lemma orbit_renderLoop:
  assumes "i < length (created s)"
  shows "orbit (created (renderLoop random p cameraQ dt s) ! i) =
     (orbit (created s ! i))\<lparr>rotation_y := rotation_y (orbit (created s ! i)) +
        speed (data (created s ! i)) * dt * 0.2 * nullish (timeScale p) 1\<rparr>"
proof -
  let ?m = "nullish (timeScale p) 1"
  let ?cs = "map (animatePlanet dt ?m) (created s)"
  have len: "i < length (rotateSaturnRing ?m ?cs)" using assms by simp
  have "orbit (rotateSaturnRing ?m ?cs ! i) = orbit (?cs ! i)"
    using nth_via_map [OF len rotateSaturnRing_orbit] .
  then show ?thesis using assms
    by (simp add: created_renderLoop animatePlanet_def Let_def)
qed

lemma quaternion_renderLoop:
  assumes "i < length (created s)"
  shows "mesh_quaternion (mesh (created (renderLoop random p cameraQ dt s) ! i)) =
     rotateY (speed (data (created s ! i)) * dt * nullish (timeScale p) 1)
       (mesh_quaternion (mesh (created s ! i)))"
proof -
  let ?m = "nullish (timeScale p) 1"
  let ?cs = "map (animatePlanet dt ?m) (created s)"
  have len: "i < length (rotateSaturnRing ?m ?cs)" using assms by simp
  have "mesh_quaternion (mesh (rotateSaturnRing ?m ?cs ! i)) = mesh_quaternion (mesh (?cs ! i))"
    using nth_via_map [OF len rotateSaturnRing_quaternion] .
  then show ?thesis using assms
    by (simp add: created_renderLoop animatePlanet_def Let_def)
qed

lemma data_nth_renderLoop:
  "i < length (created s) \<Longrightarrow> data (created (renderLoop random p cameraQ dt s) ! i) = data (created s ! i)"
  by (rule nth_via_map [OF _ data_renderLoop]) simp

lemma orbit_runFrames:
  "i < length (created s) \<Longrightarrow>
   rotation_y (orbit (created (runFrames random fs s) ! i)) =
     rotation_y (orbit (created s ! i)) + speed (data (created s ! i)) * 0.2 * (\<Sum>f\<leftarrow>fs. frameTime f)"
proof (induction fs arbitrary: s)
  case Nil
  then show ?case by simp
next
  case (Cons f fs)
  let ?s1 = "renderLoop random (frame_params f) (frame_camera f) (frame_dt f) s"
  have "i < length (created ?s1)" using Cons.prems by simp
  from Cons.IH [OF this] show ?case
    using Cons.prems
    by (simp add: orbit_renderLoop data_nth_renderLoop frameTime_def algebra_simps)
qed

lemma spin_runFrames:
  "i < length (created s) \<Longrightarrow> mesh_quaternion (mesh (created s ! i)) = setFromAxisAngle yAxis a \<Longrightarrow>
   mesh_quaternion (mesh (created (runFrames random fs s) ! i)) =
     setFromAxisAngle yAxis (a + speed (data (created s ! i)) * (\<Sum>f\<leftarrow>fs. frameTime f))"
proof (induction fs arbitrary: s a)
  case Nil
  then show ?case by simp
next
  case (Cons f fs)
  let ?s1 = "renderLoop random (frame_params f) (frame_camera f) (frame_dt f) s"
  let ?a1 = "a + speed (data (created s ! i)) * frame_dt f * nullish (timeScale (frame_params f)) 1"
  have len: "i < length (created ?s1)" using Cons.prems by simp
  have q: "mesh_quaternion (mesh (created ?s1 ! i)) = setFromAxisAngle yAxis ?a1"
    using Cons.prems by (simp add: quaternion_renderLoop rotateY_about_y)
  have "?a1 + speed (data (created ?s1 ! i)) * (\<Sum>f\<leftarrow>fs. frameTime f) =
        a + speed (data (created s ! i)) * (\<Sum>g\<leftarrow>f # fs. frameTime g)"
    using Cons.prems by (simp add: data_nth_renderLoop frameTime_def algebra_simps)
  with Cons.IH [OF len q] show ?case by simp
qed

text \<open>The assembly touches neither the data, nor the orbit and tilt groups, nor the
  quaternion of a planet mesh once \<^verbatim>\<open>buildPlanetWithTilt\<close> has set them.\<close>

lemma moonMeshes_snd: "snd (moonMeshes random ms n) = n + length ms"
  by (induction ms arbitrary: n) (simp_all add: Let_def case_prod_beta)

lemma attachMoons_fields:
  "tilt_group (fst (attachMoons random obj n)) = tilt_group obj"
  "orbit (fst (attachMoons random obj n)) = orbit obj"
  "data (fst (attachMoons random obj n)) = data obj"
  "mesh_quaternion (mesh (fst (attachMoons random obj n))) = mesh_quaternion (mesh obj)"
  by (simp_all add: attachMoons_def Let_def case_prod_beta split: option.splits)

lemma attachAllMoons_Cons:
  "attachAllMoons random (obj # objs) n =
     (fst (attachMoons random obj n) # fst (attachAllMoons random objs (snd (attachMoons random obj n))),
      snd (attachAllMoons random objs (snd (attachMoons random obj n))))"
  by (simp add: Let_def case_prod_beta)

lemma attachAllMoons_tilt:
  "map tilt_group (fst (attachAllMoons random objs n)) = map tilt_group objs"
  by (induction objs arbitrary: n) (simp_all only: attachAllMoons.simps(1) attachAllMoons_Cons fst_conv list.map attachMoons_fields)

lemma attachAllMoons_orbit:
  "map orbit (fst (attachAllMoons random objs n)) = map orbit objs"
  by (induction objs arbitrary: n) (simp_all only: attachAllMoons.simps(1) attachAllMoons_Cons fst_conv list.map attachMoons_fields)

lemma attachAllMoons_data:
  "map data (fst (attachAllMoons random objs n)) = map data objs"
  by (induction objs arbitrary: n) (simp_all only: attachAllMoons.simps(1) attachAllMoons_Cons fst_conv list.map attachMoons_fields)

lemma attachAllMoons_quaternion:
  "map (\<lambda>c. mesh_quaternion (mesh c)) (fst (attachAllMoons random objs n)) =
   map (\<lambda>c. mesh_quaternion (mesh c)) objs"
  by (induction objs arbitrary: n) (simp_all only: attachAllMoons.simps(1) attachAllMoons_Cons fst_conv list.map attachMoons_fields)

lemma addSaturnRing_fields:
  "map tilt_group (fst (addSaturnRing random ps cs n)) = map tilt_group cs"
  "map orbit (fst (addSaturnRing random ps cs n)) = map orbit cs"
  "map data (fst (addSaturnRing random ps cs n)) = map data cs"
  "map (\<lambda>c. mesh_quaternion (mesh c)) (fst (addSaturnRing random ps cs n)) = map (\<lambda>c. mesh_quaternion (mesh c)) cs"
  by (simp_all add: addSaturnRing_def createSaturnRing_def Let_def map_update list_update_same_conv
        case_prod_beta split: option.splits)

lemma created_buildScene:
  "created (buildScene random ps) =
     fst (addSaturnRing random ps (map addAnchor (fst (attachAllMoons random (map buildPlanetWithTilt ps) 0)))
       (snd (createAsteroidBelt random beltOptions (snd (attachAllMoons random (map buildPlanetWithTilt ps) 0)))))"
  by (simp add: buildScene_def addPlanetLabels_def Let_def case_prod_beta)

lemma map_addAnchor:
  "map tilt_group (map addAnchor cs) = map tilt_group cs"
  "map orbit (map addAnchor cs) = map orbit cs"
  "map data (map addAnchor cs) = map data cs"
  "map (\<lambda>c. mesh_quaternion (mesh c)) (map addAnchor cs) = map (\<lambda>c. mesh_quaternion (mesh c)) cs"
  by (simp_all add: addAnchor_def Let_def)

lemma buildScene_tilt:
  "map tilt_group (created (buildScene random ps)) = map (\<lambda>p. emptyGroup\<lparr>rotation_z := degToRad (tilt p)\<rparr>) ps"
  unfolding created_buildScene addSaturnRing_fields map_addAnchor attachAllMoons_tilt
  by (simp add: buildPlanetWithTilt_def orElse_def degToRad_def)

lemma buildScene_orbit:
  "map orbit (created (buildScene random ps)) = map (\<lambda>p. emptyGroup) ps"
  unfolding created_buildScene addSaturnRing_fields map_addAnchor attachAllMoons_orbit
  by (simp add: buildPlanetWithTilt_def)

lemma buildScene_data:
  "map data (created (buildScene random ps)) = ps"
  unfolding created_buildScene addSaturnRing_fields map_addAnchor attachAllMoons_data
  by (simp add: buildPlanetWithTilt_def comp_def)

lemma buildScene_quaternion:
  "map (\<lambda>c. mesh_quaternion (mesh c)) (created (buildScene random ps)) = map (\<lambda>p. identityQ) ps"
  unfolding created_buildScene addSaturnRing_fields map_addAnchor attachAllMoons_quaternion
  by (simp add: buildPlanetWithTilt_def comp_def)

text \<open>
  Claim C8. No run of frames changes a tilt group. In the scene assembled from the planet
  list, after any run of frames, each tilt group still has the rotation the construction gave
  it (the tilt in radians about Z, nothing else), while the orbit group's rotation about Y
  and the turn of the mesh about its Y axis have accumulated \<open>speed * 0.2 * \<Sum> dt * m\<close> and
  \<open>speed * \<Sum> dt * m\<close>.
\<close>

theorem tilt_never_mutated:
  "map tilt_group (created (runFrames random fs s)) = map tilt_group (created s) \<and>
   map tilt_group (created (runFrames random fs (buildScene random ps))) =
     map (\<lambda>p. emptyGroup\<lparr>rotation_z := degToRad (tilt p)\<rparr>) ps \<and>
   (\<forall>i<length ps.
      rotation_y (orbit (created (runFrames random fs (buildScene random ps)) ! i)) =
        speed (ps ! i) * 0.2 * (\<Sum>f\<leftarrow>fs. frameTime f) \<and>
      mesh_quaternion (mesh (created (runFrames random fs (buildScene random ps)) ! i)) =
        setFromAxisAngle yAxis (speed (ps ! i) * (\<Sum>f\<leftarrow>fs. frameTime f)))"
proof (intro conjI allI impI)
  show "map tilt_group (created (runFrames random fs s)) = map tilt_group (created s)"
    by (rule tilt_runFrames)
  show "map tilt_group (created (runFrames random fs (buildScene random ps))) =
     map (\<lambda>p. emptyGroup\<lparr>rotation_z := degToRad (tilt p)\<rparr>) ps"
    by (simp only: tilt_runFrames buildScene_tilt)
next
  fix i assume i: "i < length ps"
  let ?s = "buildScene random ps"
  have len: "length (created ?s) = length ps"
    using arg_cong [OF buildScene_data [of random ps], of length] by simp
  then have i': "i < length (created ?s)" using i by simp
  have d: "data (created ?s ! i) = ps ! i"
    using nth_map [OF i', of data] by (simp add: buildScene_data)
  have o: "orbit (created ?s ! i) = emptyGroup"
    using nth_map [OF i', of orbit] i by (simp add: buildScene_orbit)
  have q: "mesh_quaternion (mesh (created ?s ! i)) = setFromAxisAngle yAxis 0"
    using nth_map [OF i', of "\<lambda>c. mesh_quaternion (mesh c)"] i
    by (simp add: buildScene_quaternion identityQ_def setFromAxisAngle_def yAxis_def)
  show "rotation_y (orbit (created (runFrames random fs ?s) ! i)) =
        speed (ps ! i) * 0.2 * (\<Sum>f\<leftarrow>fs. frameTime f)"
    by (simp add: orbit_runFrames [OF i'] d o emptyGroup_def)
  show "mesh_quaternion (mesh (created (runFrames random fs ?s) ! i)) =
        setFromAxisAngle yAxis (speed (ps ! i) * (\<Sum>f\<leftarrow>fs. frameTime f))"
    by (simp add: spin_runFrames [OF i' q] d)
qed

text \<open>The eight planets of the source after two frames with \<open>dt = 1\<close>.\<close>

theorem tilt_never_mutated_witness:
  "map (\<lambda>c. rotation_z (tilt_group c)) (created (runFrames (\<lambda>k. 0) [unitFrame, unitFrame] (buildScene (\<lambda>k. 0) planets))) =
     [degToRad 0.034, degToRad 177.3, degToRad 23.5, degToRad 25.2, degToRad 3.1, degToRad 26.7,
      degToRad 97.8, degToRad 28.3] \<and>
   rotation_y (orbit (created (runFrames (\<lambda>k. 0) [unitFrame, unitFrame] (buildScene (\<lambda>k. 0) planets)) ! 2)) = 0.002"
proof -
  have t: "frameTime unitFrame = 1"
    by (simp add: frameTime_def unitFrame_def initialParams_def nullish_def)
  have l: "2 < length planets" by (simp add: planets_def)
  have e: "speed (planets ! 2) = 0.005" by (simp add: planets_def)
  note T = tilt_never_mutated [of "\<lambda>k. 0" "[unitFrame, unitFrame]" "buildScene (\<lambda>k. 0) planets" planets]
  from T have "map tilt_group (created (runFrames (\<lambda>k. 0) [unitFrame, unitFrame] (buildScene (\<lambda>k. 0) planets))) =
     map (\<lambda>p. emptyGroup\<lparr>rotation_z := degToRad (tilt p)\<rparr>) planets"
    by blast
  from arg_cong [OF this, of "map rotation_z"]
  have 1: "map (\<lambda>c. rotation_z (tilt_group c)) (created (runFrames (\<lambda>k. 0) [unitFrame, unitFrame] (buildScene (\<lambda>k. 0) planets))) =
     map (\<lambda>p. degToRad (tilt p)) planets"
    by (simp add: comp_def)
  from T l have "rotation_y (orbit (created (runFrames (\<lambda>k. 0) [unitFrame, unitFrame] (buildScene (\<lambda>k. 0) planets)) ! 2)) =
        speed (planets ! 2) * 0.2 * (\<Sum>f\<leftarrow>[unitFrame, unitFrame]. frameTime f)"
    by blast
  then have 2: "rotation_y (orbit (created (runFrames (\<lambda>k. 0) [unitFrame, unitFrame] (buildScene (\<lambda>k. 0) planets)) ! 2)) = 0.002"
    by (simp add: t e)
  have 3: "map (\<lambda>p. degToRad (tilt p)) planets = [degToRad 0.034, degToRad 177.3, degToRad 23.5, degToRad 25.2, degToRad 3.1, degToRad 26.7,
      degToRad 97.8, degToRad 28.3]"
    by (simp add: planets_def)
  show ?thesis using 1 2 3 by simp
qed

section \<open>The placement of the asteroid belt\<close>

lemma belt_r_arg: "u * (b * b - a * a) + a * a = u * (b * b) + (1 - u) * (a * a)" for u a b :: real
  by (simp add: algebra_simps)

lemma belt_r_square:
  assumes "0 \<le> u" "u \<le> 1"
  shows "(belt_r a b u)\<^sup>2 = u * (b * b - a * a) + a * a"
proof -
  have "0 \<le> u * (b * b) + (1 - u) * (a * a)"
    using assms by (intro add_nonneg_nonneg mult_nonneg_nonneg zero_le_square) simp_all
  then have "0 \<le> u * (b * b - a * a) + a * a" by (simp only: belt_r_arg)
  then show ?thesis by (simp add: belt_r_def)
qed

lemma belt_r_lower:
  assumes "0 \<le> a" "a \<le> b" "0 \<le> u"
  shows "a \<le> belt_r a b u"
proof -
  have "a * a \<le> b * b" using assms by (intro mult_mono) simp_all
  then have "0 \<le> u * (b * b - a * a)" using assms by simp
  then have "a\<^sup>2 \<le> u * (b * b - a * a) + a * a" by (simp add: power2_eq_square)
  then show ?thesis unfolding belt_r_def by (rule real_le_rsqrt)
qed

lemma belt_r_upper:
  assumes "0 \<le> a" "a < b" "u < 1"
  shows "belt_r a b u < b"
proof -
  have "a * a < b * b" using assms by (intro mult_strict_mono') simp_all
  then have "0 < (1 - u) * (b * b - a * a)" using assms by simp
  then have "u * (b * b - a * a) + a * a < b\<^sup>2" by (simp add: power2_eq_square algebra_simps)
  moreover have "0 \<le> b" using assms by simp
  ultimately show ?thesis unfolding belt_r_def by (intro real_less_lsqrt)
qed

lemma belt_r_not_linear:
  assumes "0 \<le> a" "a < b" "0 < u" "u < 1"
  shows "a + u * (b - a) < belt_r a b u"
proof -
  have "(a + u * (b - a))\<^sup>2 + u * (1 - u) * (b - a)\<^sup>2 = u * (b * b - a * a) + a * a"
    by (simp add: power2_eq_square algebra_simps)
  moreover have "0 < u * (1 - u) * (b - a)\<^sup>2" using assms by simp
  ultimately have "(a + u * (b - a))\<^sup>2 < u * (b * b - a * a) + a * a" by linarith
  then show ?thesis unfolding belt_r_def by (rule real_less_rsqrt)
qed

lemma jitter_arith:
  fixes X w e :: real
  assumes "X \<le> 0.5 * w" "e = X * 0.03"
  shows "e \<le> 0.015 * w"
  using assms by simp

lemma half_arith:
  fixes X w e :: real
  assumes "X \<le> 0.5 * w" "e = X"
  shows "e \<le> w / 2"
  using assms by simp

lemma belt_ecc_bound:
  assumes "0 \<le> u" "u < 1"
  shows "\<bar>belt_ecc a b u\<bar> \<le> 0.015 * \<bar>b - a\<bar>"
proof -
  have "\<bar>u - 0.5\<bar> \<le> 0.5" using assms by linarith
  then have "\<bar>u - 0.5\<bar> * \<bar>b - a\<bar> \<le> 0.5 * \<bar>b - a\<bar>" by (intro mult_right_mono) simp_all
  moreover have "\<bar>belt_ecc a b u\<bar> = (\<bar>u - 0.5\<bar> * \<bar>b - a\<bar>) * 0.03"
    by (simp add: belt_ecc_def abs_mult)
  ultimately show ?thesis by (rule jitter_arith)
qed

lemma centred_bound:
  fixes u w :: real
  assumes "0 \<le> u" "u < 1"
  shows "\<bar>(u - 0.5) * w\<bar> \<le> \<bar>w\<bar> / 2"
proof -
  have "\<bar>u - 0.5\<bar> \<le> 0.5" using assms by linarith
  then have "\<bar>u - 0.5\<bar> * \<bar>w\<bar> \<le> 0.5 * \<bar>w\<bar>" by (intro mult_right_mono) simp_all
  moreover have "\<bar>(u - 0.5) * w\<bar> = \<bar>u - 0.5\<bar> * \<bar>w\<bar>" by (rule abs_mult)
  ultimately show ?thesis by (rule half_arith)
qed

lemma scale_band:
  fixes u lo hi :: real
  assumes "0 \<le> u" "u < 1" "lo \<le> hi"
  shows "lo \<le> lo + u * (hi - lo) \<and> lo + u * (hi - lo) \<le> hi"
proof
  show "lo \<le> lo + u * (hi - lo)" using assms by simp
  have "u * (hi - lo) \<le> 1 * (hi - lo)" using assms by (intro mult_right_mono) simp_all
  then show "lo + u * (hi - lo) \<le> hi" by simp
qed

lemma on_circle: "(cos a * d)\<^sup>2 + (sin a * d)\<^sup>2 = d\<^sup>2" for a d :: real
proof -
  have "(cos a * d)\<^sup>2 + (sin a * d)\<^sup>2 = ((sin a)\<^sup>2 + (cos a)\<^sup>2) * d\<^sup>2"
    by (simp only: power_mult_distrib distrib_right add.commute)
  also have "\<dots> = d\<^sup>2" by (simp only: sin_cos_squared_add mult_1)
  finally show ?thesis .
qed

lemma instances_createAsteroidBelt:
  "i < nullish (opt_count options) 2000 \<Longrightarrow>
   instances (fst (createAsteroidBelt random options n)) ! i =
     beltInstance random (nullish (opt_innerRadius options) 28) (nullish (opt_outerRadius options) 36)
       (nullish (opt_thickness options) 2.0) (nullish (opt_minScale options) 0.05)
       (nullish (opt_maxScale options) 0.25) (n + 8 * i)"
  by (simp add: createAsteroidBelt_def Let_def)

lemma length_instances_createAsteroidBelt:
  "length (instances (fst (createAsteroidBelt random options n))) = nullish (opt_count options) 2000"
  by (simp add: createAsteroidBelt_def Let_def)

lemma instances_renderLoop:
  "map_option instances (asteroidBelt (renderLoop random p cameraQ dt s)) = map_option instances (asteroidBelt s)"
  by (cases "asteroidBelt s") (simp_all add: asteroidBelt_renderLoop)

lemma instances_runFrames:
  "map_option instances (asteroidBelt (runFrames random fs s)) = map_option instances (asteroidBelt s)"
  by (induction fs arbitrary: s) (simp_all add: instances_renderLoop)

text \<open>
  Claim C3. With draws in \<open>[0, 1)\<close>, instance \<open>i\<close> of the asteroid belt lies at the angle of its
  first draw, at distance \<open>r + ecc\<close> from the axis, where \<open>r = sqrt (u * (b\<^sup>2 - a\<^sup>2) + a\<^sup>2)\<close> for
  its second draw \<open>u\<close>: the annulus from the inner radius \<open>a\<close> to \<open>r\<close> has the fraction \<open>u\<close> of the
  area of the belt, \<open>r\<close> lies in \<open>[a, b)\<close> and, for \<open>u > 0\<close>, beyond the linear sample
  \<open>a + u * (b - a)\<close>. The eccentricity is at most 1.5 percent of the width, the height at most
  half the thickness, the scale within the band, and each rotation angle in \<open>[0, \<pi>)\<close>. No run
  of frames changes the instances.
\<close>

theorem asteroid_belt_placement:
  assumes "\<And>k. 0 \<le> random k" "\<And>k. random k < 1"
    and "i < nullish (opt_count options) 2000"
  shows "let a = nullish (opt_innerRadius options) 28;
             b = nullish (opt_outerRadius options) 36;
             th = nullish (opt_thickness options) 2.0;
             lo = nullish (opt_minScale options) 0.05;
             hi = nullish (opt_maxScale options) 0.25;
             inst = instances (fst (createAsteroidBelt random options n)) ! i;
             k = n + 8 * i;
             u = random (k + 1);
             r = sqrt (u * (b * b - a * a) + a * a);
             ecc = (random (k + 2) - 0.5) * (b - a) * 0.03
         in inst_position inst =
              \<lparr>vx = cos (random k * pi * 2) * (r + ecc),
               vy = (random (k + 3) - 0.5) * th,
               vz = sin (random k * pi * 2) * (r + ecc)\<rparr> \<and>
            (vx (inst_position inst))\<^sup>2 + (vz (inst_position inst))\<^sup>2 = (r + ecc)\<^sup>2 \<and>
            r\<^sup>2 - a\<^sup>2 = u * (b\<^sup>2 - a\<^sup>2) \<and>
            (0 \<le> a \<and> a < b \<longrightarrow> a \<le> r \<and> r < b \<and> (0 < u \<longrightarrow> a + u * (b - a) < r)) \<and>
            \<bar>ecc\<bar> \<le> 0.015 * \<bar>b - a\<bar> \<and>
            \<bar>vy (inst_position inst)\<bar> \<le> \<bar>th\<bar> / 2 \<and>
            inst_scale inst = lo + random (k + 4) * (hi - lo) \<and>
            (lo \<le> hi \<longrightarrow> lo \<le> inst_scale inst \<and> inst_scale inst \<le> hi) \<and>
            inst_rotation inst = \<lparr>vx = random (k + 5) * pi, vy = random (k + 6) * pi, vz = random (k + 7) * pi\<rparr> \<and>
            0 \<le> vx (inst_rotation inst) \<and> vx (inst_rotation inst) < pi \<and>
            0 \<le> vy (inst_rotation inst) \<and> vy (inst_rotation inst) < pi \<and>
            0 \<le> vz (inst_rotation inst) \<and> vz (inst_rotation inst) < pi \<and>
            map_option instances (asteroidBelt (runFrames random' fs s)) = map_option instances (asteroidBelt s)"
proof -
  let ?a = "nullish (opt_innerRadius options) 28"
  let ?b = "nullish (opt_outerRadius options) 36"
  let ?th = "nullish (opt_thickness options) 2.0"
  let ?lo = "nullish (opt_minScale options) 0.05"
  let ?hi = "nullish (opt_maxScale options) 0.25"
  let ?k = "n + 8 * i"
  let ?u = "random (?k + 1)"
  let ?inst = "instances (fst (createAsteroidBelt random options n)) ! i"
  have u: "0 \<le> ?u" "?u < 1" "?u \<le> 1"
    using assms(1) [of "?k + 1"] assms(2) [of "?k + 1"] by simp_all
  have inst: "?inst = beltInstance random ?a ?b ?th ?lo ?hi ?k"
    using assms(3) by (rule instances_createAsteroidBelt)
  have r: "belt_r ?a ?b ?u = sqrt (?u * (?b * ?b - ?a * ?a) + ?a * ?a)"
    by (simp add: belt_r_def)
  have e: "belt_ecc ?a ?b (random (?k + 2)) = (random (?k + 2) - 0.5) * (?b - ?a) * 0.03"
    by (simp add: belt_ecc_def)
  have pos: "inst_position ?inst =
      \<lparr>vx = cos (random ?k * pi * 2) * (belt_r ?a ?b ?u + belt_ecc ?a ?b (random (?k + 2))),
       vy = (random (?k + 3) - 0.5) * ?th,
       vz = sin (random ?k * pi * 2) * (belt_r ?a ?b ?u + belt_ecc ?a ?b (random (?k + 2)))\<rparr>"
    by (simp add: inst beltInstance_def Let_def add.assoc)
  have circle: "(vx (inst_position ?inst))\<^sup>2 + (vz (inst_position ?inst))\<^sup>2 =
      (belt_r ?a ?b ?u + belt_ecc ?a ?b (random (?k + 2)))\<^sup>2"
    by (simp only: pos vector3.simps on_circle)
  have area: "(belt_r ?a ?b ?u)\<^sup>2 - ?a\<^sup>2 = ?u * (?b\<^sup>2 - ?a\<^sup>2)"
    using belt_r_square [OF u(1) u(3), of ?a ?b] by (simp add: power2_eq_square)
  have band: "0 \<le> ?a \<and> ?a < ?b \<longrightarrow>
      ?a \<le> belt_r ?a ?b ?u \<and> belt_r ?a ?b ?u < ?b \<and> (0 < ?u \<longrightarrow> ?a + ?u * (?b - ?a) < belt_r ?a ?b ?u)"
    using belt_r_lower [of ?a ?b ?u] belt_r_upper [of ?a ?b ?u] belt_r_not_linear [of ?a ?b ?u] u
    by auto
  have ecc: "\<bar>belt_ecc ?a ?b (random (?k + 2))\<bar> \<le> 0.015 * \<bar>?b - ?a\<bar>"
    using assms(1,2) by (rule belt_ecc_bound)
  have height: "\<bar>vy (inst_position ?inst)\<bar> \<le> \<bar>?th\<bar> / 2"
    unfolding pos vector3.simps using assms(1,2) by (rule centred_bound)
  have scl: "inst_scale ?inst = ?lo + random (?k + 4) * (?hi - ?lo)"
    by (simp add: inst beltInstance_def Let_def)
  have sclband: "?lo \<le> ?hi \<longrightarrow> ?lo \<le> inst_scale ?inst \<and> inst_scale ?inst \<le> ?hi"
    unfolding scl using scale_band [OF assms(1) assms(2), of ?lo ?hi "?k + 4"] by blast
  have rot: "inst_rotation ?inst =
      \<lparr>vx = random (?k + 5) * pi, vy = random (?k + 6) * pi, vz = random (?k + 7) * pi\<rparr>"
    by (simp add: inst beltInstance_def Let_def)
  have turn: "0 \<le> random j * pi \<and> random j * pi < pi" for j
    using assms(1) [of j] assms(2) [of j] by simp
  have still: "map_option instances (asteroidBelt (runFrames random' fs s)) = map_option instances (asteroidBelt s)"
    by (rule instances_runFrames)
  show ?thesis
    unfolding Let_def
    using pos circle area band ecc height scl sclband rot turn still
    unfolding r e
    by simp
qed

text \<open>The belt of the source (inner 28, outer 33) when every draw is one half.\<close>

theorem asteroid_belt_placement_witness:
  "inst_position (instances (fst (createAsteroidBelt (\<lambda>k. 1 / 2) beltOptions 0)) ! 0) =
     \<lparr>vx = - sqrt 936.5, vy = 0, vz = 0\<rparr> \<and>
   inst_scale (instances (fst (createAsteroidBelt (\<lambda>k. 1 / 2) beltOptions 0)) ! 0) = 0.11 \<and>
   (sqrt 936.5)\<^sup>2 - 28\<^sup>2 = 1 / 2 * (33\<^sup>2 - 28\<^sup>2) \<and>
   30.5 < sqrt 936.5 \<and> sqrt 936.5 < 33"
proof -
  have c: "0 < nullish (opt_count beltOptions) 2000"
    by (simp add: beltOptions_def nullish_def)
  have o: "nullish (opt_innerRadius beltOptions) 28 = 28" "nullish (opt_outerRadius beltOptions) 36 = 33"
    "nullish (opt_thickness beltOptions) 2.0 = 2" "nullish (opt_minScale beltOptions) 0.05 = 0.04"
    "nullish (opt_maxScale beltOptions) 0.25 = 0.18"
    by (simp_all add: beltOptions_def nullish_def)
  have v: "(1 / 2) * (33 * 33 - 28 * 28) + 28 * 28 = (936.5 :: real)" by simp
  note T = asteroid_belt_placement [of "\<lambda>k. 1 / 2" 0 beltOptions 0 "\<lambda>k. 0" "[]" marsScene,
      unfolded Let_def o v, OF _ _ c]
  have T': "inst_position (instances (fst (createAsteroidBelt (\<lambda>k. 1 / 2) beltOptions 0)) ! 0) =
      \<lparr>vx = cos (1 / 2 * pi * 2) * (sqrt 936.5 + (1 / 2 - 0.5) * (33 - 28) * 0.03),
       vy = (1 / 2 - 0.5) * 2, vz = sin (1 / 2 * pi * 2) * (sqrt 936.5 + (1 / 2 - 0.5) * (33 - 28) * 0.03)\<rparr> \<and>
     inst_scale (instances (fst (createAsteroidBelt (\<lambda>k. 1 / 2) beltOptions 0)) ! 0) = 0.04 + 1 / 2 * (0.18 - 0.04) \<and>
     (sqrt 936.5)\<^sup>2 - 28\<^sup>2 = 1 / 2 * (33\<^sup>2 - 28\<^sup>2) \<and>
     28 + 1 / 2 * (33 - 28) < sqrt 936.5 \<and> sqrt 936.5 < 33"
    using T by simp
  then show ?thesis by simp
qed

section \<open>Space dust\<close>

lemma updatePebble_eq:
  "updatePebble random dustObj dtMove dt pb n =
     (if recycled dustObj dtMove pb then
        (writeTransform (pb\<lparr>pos := \<lparr>vx = (random n - 0.5) * spread dustObj,
                                       vy = (random (n + 1) - 0.5) * spread dustObj,
                                       vz = - far dustObj\<rparr>,
                             rotAngle := rotAngle pb + rotSpeed pb * dt\<rparr>), n + 2)
      else
        (writeTransform (pb\<lparr>pos := (pos pb)\<lparr>vz := vz (pos pb) + dtMove\<rparr>,
                             rotAngle := rotAngle pb + rotSpeed pb * dt\<rparr>), n))"
  by (simp add: updatePebble_def recycled_def Let_def)

lemma updatePebble_rotAngle:
  "rotAngle (fst (updatePebble random dustObj dtMove dt pb n)) = rotAngle pb + rotSpeed pb * dt"
  by (simp add: updatePebble_eq writeTransform_def)

lemma updatePebble_kept:
  "rotSpeed (fst (updatePebble random dustObj dtMove dt pb n)) = rotSpeed pb"
  "rotAxis (fst (updatePebble random dustObj dtMove dt pb n)) = rotAxis pb"
  "pebble_scale (fst (updatePebble random dustObj dtMove dt pb n)) = pebble_scale pb"
  by (simp_all add: updatePebble_eq writeTransform_def)

lemma updatePebble_draws:
  "snd (updatePebble random dustObj dtMove dt pb n) = n + (if recycled dustObj dtMove pb then 2 else 0)"
  by (simp add: updatePebble_eq)

lemma updatePebbles_Cons:
  "updatePebbles random dustObj dtMove dt (pb # pbs) n =
     (fst (updatePebble random dustObj dtMove dt pb n) #
        fst (updatePebbles random dustObj dtMove dt pbs (snd (updatePebble random dustObj dtMove dt pb n))),
      snd (updatePebbles random dustObj dtMove dt pbs (snd (updatePebble random dustObj dtMove dt pb n))))"
  by (simp add: Let_def case_prod_beta)

lemma updatePebbles_draws:
  "snd (updatePebbles random dustObj dtMove dt pbs n) =
     n + 2 * length (filter (recycled dustObj dtMove) pbs)"
  by (induction pbs arbitrary: n) (simp_all add: updatePebbles_Cons updatePebble_draws del: updatePebbles.simps(2))

lemma length_updatePebbles:
  "length (fst (updatePebbles random dustObj dtMove dt pbs n)) = length pbs"
  by (induction pbs arbitrary: n) (simp_all add: updatePebbles_Cons del: updatePebbles.simps(2))

lemma updatePebbles_nth:
  "i < length pbs \<Longrightarrow>
   fst (updatePebbles random dustObj dtMove dt pbs n) ! i =
     fst (updatePebble random dustObj dtMove dt (pbs ! i)
            (n + 2 * length (filter (recycled dustObj dtMove) (take i pbs))))"
proof (induction pbs arbitrary: n i)
  case Nil
  then show ?case by simp
next
  case (Cons pb pbs)
  show ?case
  proof (cases i)
    case 0
    then show ?thesis by (simp add: updatePebbles_Cons del: updatePebbles.simps(2))
  next
    case (Suc j)
    with Cons.prems have "j < length pbs" by simp
    from Cons.IH [OF this] show ?thesis
      by (simp add: Suc updatePebbles_Cons updatePebble_draws del: updatePebbles.simps(2))
  qed
qed

lemma updatePebbles_rotAngle:
  "map rotAngle (fst (updatePebbles random dustObj dtMove dt pbs n)) =
     map (\<lambda>pb. rotAngle pb + rotSpeed pb * dt) pbs"
  by (induction pbs arbitrary: n)
     (simp_all add: updatePebbles_Cons updatePebble_rotAngle del: updatePebbles.simps(2))

lemma updatePebbles_rotSpeed:
  "map rotSpeed (fst (updatePebbles random dustObj dtMove dt pbs n)) = map rotSpeed pbs"
  by (induction pbs arbitrary: n)
     (simp_all add: updatePebbles_Cons updatePebble_kept del: updatePebbles.simps(2))

lemma animatePebbles_eq:
  "animatePebbles random p dt dustObj n =
     (dustObj\<lparr>pebbles := fst (updatePebbles random dustObj (dustMove p dt) dt (pebbles dustObj) n)\<rparr>,
      snd (updatePebbles random dustObj (dustMove p dt) dt (pebbles dustObj) n))"
  by (simp add: animatePebbles_def dustMove_def Let_def case_prod_beta)

lemma configChanged_animatePebbles:
  "configChanged p (fst (animatePebbles random p dt dustObj n)) = configChanged p dustObj"
  by (simp add: animatePebbles_eq configChanged_def length_updatePebbles)

lemma configChanged_visible [simp]: "configChanged p (dustObj\<lparr>visible := v\<rparr>) = configChanged p dustObj"
  by (simp add: configChanged_def)

lemma spaceDust_updateLabels [simp]: "spaceDust (updateLabels p cameraQ s) = spaceDust s"
  by (simp add: updateLabels_def Let_def split: option.splits)

lemma spaceDust_renderLoop_disabled:
  assumes "spaceDust s = Some dustObj" "\<not> spaceDustEnabled p"
  shows "spaceDust (renderLoop random p cameraQ dt s) = Some (dustObj\<lparr>visible := False\<rparr>)"
  using assms by (simp add: renderLoop_def updateSpaceDust_def Let_def split: option.splits)

lemma spaceDust_renderLoop_enabled:
  assumes "spaceDust s = Some dustObj" "spaceDustEnabled p" "\<not> configChanged p dustObj"
  shows "spaceDust (renderLoop random p cameraQ dt s) =
     Some (fst (animatePebbles random p dt (dustObj\<lparr>visible := True\<rparr>) (randomCalls s)))"
  using assms
  by (simp add: renderLoop_def updateSpaceDust_def Let_def case_prod_beta configChanged_animatePebbles
      split: option.splits)

lemma upt_2: "[0..<2] = [0, 1]"
  by (simp add: upt_rec)

lemma dustField_fields:
  "spread dustField = 40" "near dustField = 2" "far dustField = 60" "sMin dustField = 0.05"
  "sMax dustField = 0.22" "length (pebbles dustField) = 2"
  by (simp_all add: dustField_def dustParams_def initialParams_def createSpacePebbles_def
      pebbleOptions_def nullish_def Let_def)

lemma dustField_pebbles:
  "map pos (pebbles dustField) = [\<lparr>vx = 0, vy = 0, vz = - 31\<rparr>, \<lparr>vx = 0, vy = 0, vz = - 31\<rparr>]"
  "map rotAngle (pebbles dustField) = [pi, pi]"
  "map rotSpeed (pebbles dustField) = [0.75, 0.75]"
  by (simp_all add: dustField_def dustParams_def initialParams_def createSpacePebbles_def
      pebbleOptions_def nullish_def orElse_def Let_def upt_2 newPebble_def writeTransform_def rnd_def)

lemma dustField_nth:
  "pos (pebbles dustField ! 0) = \<lparr>vx = 0, vy = 0, vz = - 31\<rparr>"
  "pos (pebbles dustField ! 1) = \<lparr>vx = 0, vy = 0, vz = - 31\<rparr>"
  "take 1 (pebbles dustField) = [pebbles dustField ! 0]"
  "map (\<lambda>pb. rotAngle pb + rotSpeed pb * c) (pebbles dustField) = [pi + 0.75 * c, pi + 0.75 * c]"
  by (simp_all add: dustField_def dustParams_def initialParams_def createSpacePebbles_def
      pebbleOptions_def nullish_def orElse_def Let_def upt_2 newPebble_def writeTransform_def rnd_def)

lemma dustParams_unchanged: "\<not> configChanged dustParams dustField"
  by (simp add: configChanged_def dustField_fields) (simp add: dustParams_def initialParams_def)

lemma within_half:
  fixes v w :: real
  assumes "\<bar>v\<bar> \<le> \<bar>w\<bar> / 2" "0 \<le> w"
  shows "- (w / 2) \<le> v \<and> v \<le> w / 2"
  using assms by linarith

lemma configChanged_timeScale [simp]: "configChanged (p\<lparr>timeScale := t\<rparr>) d = configChanged p d"
  by (simp add: configChanged_def)

lemma updatePebble_visible:
  "updatePebble random (dustObj\<lparr>visible := v\<rparr>) dtMove dt pb n = updatePebble random dustObj dtMove dt pb n"
  by (simp add: updatePebble_eq recycled_def)

lemma updatePebbles_visible:
  "updatePebbles random (dustObj\<lparr>visible := v\<rparr>) dtMove dt pbs n = updatePebbles random dustObj dtMove dt pbs n"
  by (induction pbs arbitrary: n) (simp_all add: updatePebble_visible)

lemma pebbles_renderLoop_enabled:
  assumes "spaceDust s = Some dustObj" "spaceDustEnabled p" "\<not> configChanged p dustObj"
  shows "map_option pebbles (spaceDust (renderLoop random p cameraQ dt s)) =
     Some (pebbles (fst (animatePebbles random p dt dustObj (randomCalls s))))"
  using assms by (simp add: spaceDust_renderLoop_enabled animatePebbles_eq updatePebbles_visible)

text \<open>
  Claim C4. In the loop over the pebbles, a pebble that the step of the frame,
  \<open>multiplier * (dustSpeed || 0.6) * dt\<close>, takes past the near plane (\<open>z > - near\<close>) ends the step
  at depth \<open>- far\<close>, with \<open>x\<close> and \<open>y\<close> computed from two draws that no earlier pebble of the frame
  used (two draws for each pebble recycled before it), so within half the spread of 0. The
  pebbles the loop leaves are the pebbles of the scene after the frame, when the swarm is
  enabled and the settings do not make the frame rebuild the field.
\<close>

theorem dust_respawn:
  assumes "\<And>k. 0 \<le> random k" "\<And>k. random k < 1"
    and "i < length (pebbles d)"
    and "vz (pos (pebbles d ! i)) + nullish (timeScale p) 1 * orElse (spaceDustSpeed p) 0.6 * dt > - near d"
  shows "let pb' = pebbles (fst (animatePebbles random p dt d n)) ! i;
             k = n + 2 * length (filter (recycled d (dustMove p dt)) (take i (pebbles d)))
         in pos pb' = \<lparr>vx = (random k - 0.5) * spread d, vy = (random (k + 1) - 0.5) * spread d,
                        vz = - far d\<rparr> \<and>
            t_position (matrix pb') = pos pb' \<and>
            \<bar>vx (pos pb')\<bar> \<le> \<bar>spread d\<bar> / 2 \<and> \<bar>vy (pos pb')\<bar> \<le> \<bar>spread d\<bar> / 2 \<and>
            (0 \<le> spread d \<longrightarrow>
               - (spread d / 2) \<le> vx (pos pb') \<and> vx (pos pb') \<le> spread d / 2 \<and>
               - (spread d / 2) \<le> vy (pos pb') \<and> vy (pos pb') \<le> spread d / 2) \<and>
            (spaceDust s = Some d \<and> spaceDustEnabled p \<and> \<not> configChanged p d \<longrightarrow>
               map_option pebbles (spaceDust (renderLoop random p cameraQ dt s)) =
                 Some (pebbles (fst (animatePebbles random p dt d (randomCalls s)))))"
proof -
  let ?k = "n + 2 * length (filter (recycled d (dustMove p dt)) (take i (pebbles d)))"
  let ?pb' = "pebbles (fst (animatePebbles random p dt d n)) ! i"
  have r: "recycled d (dustMove p dt) (pebbles d ! i)"
    using assms(4) by (simp add: recycled_def dustMove_def)
  have pb': "?pb' = fst (updatePebble random d (dustMove p dt) dt (pebbles d ! i) ?k)"
    using assms(3) by (simp add: animatePebbles_eq updatePebbles_nth)
  have p: "pos ?pb' = \<lparr>vx = (random ?k - 0.5) * spread d, vy = (random (?k + 1) - 0.5) * spread d,
                        vz = - far d\<rparr>"
    using r by (simp add: pb' updatePebble_eq writeTransform_def)
  have m: "t_position (matrix ?pb') = pos ?pb'"
    by (simp add: pb' updatePebble_eq writeTransform_def)
  have bndx: "\<bar>(random ?k - 0.5) * spread d\<bar> \<le> \<bar>spread d\<bar> / 2"
    using assms(1,2) by (rule centred_bound)
  have bndy: "\<bar>(random (?k + 1) - 0.5) * spread d\<bar> \<le> \<bar>spread d\<bar> / 2"
    using assms(1,2) by (rule centred_bound)
  have ix: "0 \<le> spread d \<longrightarrow> - (spread d / 2) \<le> vx (pos ?pb') \<and> vx (pos ?pb') \<le> spread d / 2"
    unfolding p vector3.simps using within_half [OF bndx] by blast
  have iy: "0 \<le> spread d \<longrightarrow> - (spread d / 2) \<le> vy (pos ?pb') \<and> vy (pos ?pb') \<le> spread d / 2"
    unfolding p vector3.simps using within_half [OF bndy] by blast
  have ax: "\<bar>vx (pos ?pb')\<bar> \<le> \<bar>spread d\<bar> / 2" unfolding p vector3.simps by (rule bndx)
  have ay: "\<bar>vy (pos ?pb')\<bar> \<le> \<bar>spread d\<bar> / 2" unfolding p vector3.simps by (rule bndy)
  have fr: "spaceDust s = Some d \<and> spaceDustEnabled p \<and> \<not> configChanged p d \<longrightarrow>
      map_option pebbles (spaceDust (renderLoop random p cameraQ dt s)) =
        Some (pebbles (fst (animatePebbles random p dt d (randomCalls s))))"
    using pebbles_renderLoop_enabled by blast
  show ?thesis
    unfolding Let_def using p m ax ay ix iy fr by blast
qed

text \<open>The second of two pebbles at depth \<open>-31\<close>, with a step of 60 and every draw one quarter.\<close>

theorem dust_respawn_witness:
  "map_option (\<lambda>pbs. pos (pbs ! 1))
     (map_option pebbles
        (spaceDust (renderLoop (\<lambda>k. 1 / 4) (dustParams\<lparr>timeScale := Some 100\<rparr>) identityQ 1 dustScene))) =
     Some \<lparr>vx = - 10, vy = - 10, vz = - 60\<rparr>"
proof -
  let ?p = "dustParams\<lparr>timeScale := Some 100\<rparr>"
  have i: "1 < length (pebbles dustField)" by (simp add: dustField_fields)
  note z0 = dustField_nth(1) and z1 = dustField_nth(2)
  have mv: "dustMove ?p 1 = 60"
    by (simp add: dustMove_def dustParams_def initialParams_def nullish_def orElse_def)
  have c: "vz (pos (pebbles dustField ! 1)) + nullish (timeScale ?p) 1 * orElse (spaceDustSpeed ?p) 0.6 * 1 > - near dustField"
    unfolding z1 dustField_fields mv [unfolded dustMove_def] by simp
  note t = dustField_nth(3)
  have f: "length (filter (recycled dustField (dustMove ?p 1)) (take 1 (pebbles dustField))) = 1"
    unfolding t mv by (simp add: recycled_def z0 dustField_fields)
  have s1: "spaceDust dustScene = Some dustField" by (simp add: dustScene_def)
  have s2: "spaceDustEnabled ?p" by (simp add: dustParams_def initialParams_def)
  have s3: "\<not> configChanged ?p dustField"
    unfolding configChanged_timeScale by (rule dustParams_unchanged)
  note s = conjI [OF s1 conjI [OF s2 s3]]
  have n: "randomCalls dustScene = 18" by (simp add: dustScene_def)
  note T = dust_respawn [where random = "\<lambda>k. 1 / 4" and i = 1 and d = dustField and p = ?p and dt = 1
      and n = 18 and s = dustScene and cameraQ = identityQ, unfolded Let_def f n, OF _ _ i c]
  from T have 1: "pos (pebbles (fst (animatePebbles (\<lambda>k. 1 / 4) ?p 1 dustField 18)) ! 1) =
      \<lparr>vx = - 10, vy = - 10, vz = - 60\<rparr>"
    by (simp add: dustField_fields)
  from T s have 2: "map_option pebbles (spaceDust (renderLoop (\<lambda>k. 1 / 4) ?p identityQ 1 dustScene)) =
      Some (pebbles (fst (animatePebbles (\<lambda>k. 1 / 4) ?p 1 dustField 18)))"
    by simp
  show ?thesis unfolding 2 using 1 by simp
qed

text \<open>
  Claim C5 as stated fails: with the swarm disabled the frame leaves every rotation phase as
  it was.
\<close>

theorem dust_spin_gated_counterexample:
  "map_option (\<lambda>d. map rotAngle (pebbles d))
     (spaceDust (renderLoop (\<lambda>k. 1 / 4) (dustParams\<lparr>spaceDustEnabled := False\<rparr>) identityQ 1 dustScene)) \<noteq>
   Some (map (\<lambda>pb. rotAngle pb + rotSpeed pb * 1) (pebbles dustField))"
proof -
  have "spaceDust (renderLoop (\<lambda>k. 1 / 4) (dustParams\<lparr>spaceDustEnabled := False\<rparr>) identityQ 1 dustScene) =
      Some (dustField\<lparr>visible := False\<rparr>)"
    by (rule spaceDust_renderLoop_disabled) (simp_all add: dustScene_def)
  then show ?thesis by (simp add: dustField_pebbles dustField_nth(4) [of 1, simplified])
qed

text \<open>
  Claim C5, amended. In a frame in which the swarm is disabled no rotation phase changes. In a
  frame in which it is enabled and the settings do not make the frame rebuild the field,
  every pebble's phase grows by its own rotation speed times \<open>dt\<close>, and the speeds stay.
\<close>

theorem dust_spin_when_enabled:
  assumes "spaceDust s = Some d"
  shows "(\<not> spaceDustEnabled p \<longrightarrow>
            map_option (\<lambda>d'. map rotAngle (pebbles d')) (spaceDust (renderLoop random p cameraQ dt s)) =
              Some (map rotAngle (pebbles d))) \<and>
         (spaceDustEnabled p \<and> \<not> configChanged p d \<longrightarrow>
            map_option (\<lambda>d'. map rotAngle (pebbles d')) (spaceDust (renderLoop random p cameraQ dt s)) =
              Some (map (\<lambda>pb. rotAngle pb + rotSpeed pb * dt) (pebbles d)) \<and>
            map_option (\<lambda>d'. map rotSpeed (pebbles d')) (spaceDust (renderLoop random p cameraQ dt s)) =
              Some (map rotSpeed (pebbles d)))"
proof (intro conjI impI)
  assume "\<not> spaceDustEnabled p"
  then show "map_option (\<lambda>d'. map rotAngle (pebbles d')) (spaceDust (renderLoop random p cameraQ dt s)) =
              Some (map rotAngle (pebbles d))"
    using assms by (simp add: spaceDust_renderLoop_disabled)
next
  assume a: "spaceDustEnabled p \<and> \<not> configChanged p d"
  then have e: "spaceDust (renderLoop random p cameraQ dt s) =
      Some (fst (animatePebbles random p dt (d\<lparr>visible := True\<rparr>) (randomCalls s)))"
    using assms by (simp add: spaceDust_renderLoop_enabled)
  show "map_option (\<lambda>d'. map rotAngle (pebbles d')) (spaceDust (renderLoop random p cameraQ dt s)) =
              Some (map (\<lambda>pb. rotAngle pb + rotSpeed pb * dt) (pebbles d))"
    by (simp add: e animatePebbles_eq updatePebbles_rotAngle)
  show "map_option (\<lambda>d'. map rotSpeed (pebbles d')) (spaceDust (renderLoop random p cameraQ dt s)) =
              Some (map rotSpeed (pebbles d))"
    by (simp add: e animatePebbles_eq updatePebbles_rotSpeed)
qed

theorem dust_spin_when_enabled_witness:
  "map_option (\<lambda>d'. map rotAngle (pebbles d')) (spaceDust (renderLoop (\<lambda>k. 1 / 4) dustParams identityQ 2 dustScene)) =
     Some [pi + 1.5, pi + 1.5] \<and>
   map_option (\<lambda>d'. map rotAngle (pebbles d'))
     (spaceDust (renderLoop (\<lambda>k. 1 / 4) (dustParams\<lparr>spaceDustEnabled := False\<rparr>) identityQ 2 dustScene)) =
     Some [pi, pi]"
proof -
  have s: "spaceDust dustScene = Some dustField" by (simp add: dustScene_def)
  have e: "spaceDustEnabled dustParams" by (simp add: dustParams_def initialParams_def)
  have n: "\<not> spaceDustEnabled (dustParams\<lparr>spaceDustEnabled := False\<rparr>)" by simp
  have r: "map (\<lambda>pb. rotAngle pb + rotSpeed pb * 2) (pebbles dustField) = [pi + 1.5, pi + 1.5]"
    by (simp add: dustField_nth(4))
  from dust_spin_when_enabled [OF s, of dustParams "\<lambda>k. 1 / 4" identityQ 2] e dustParams_unchanged
  have 1: "map_option (\<lambda>d'. map rotAngle (pebbles d')) (spaceDust (renderLoop (\<lambda>k. 1 / 4) dustParams identityQ 2 dustScene)) =
     Some (map (\<lambda>pb. rotAngle pb + rotSpeed pb * 2) (pebbles dustField))"
    by blast
  from dust_spin_when_enabled [OF s, of "dustParams\<lparr>spaceDustEnabled := False\<rparr>" "\<lambda>k. 1 / 4" identityQ 2] n
  have 2: "map_option (\<lambda>d'. map rotAngle (pebbles d'))
     (spaceDust (renderLoop (\<lambda>k. 1 / 4) (dustParams\<lparr>spaceDustEnabled := False\<rparr>) identityQ 2 dustScene)) =
     Some (map rotAngle (pebbles dustField))"
    by blast
  show ?thesis using 1 2 by (simp add: r dustField_pebbles)
qed

lemma multiply_identity: "multiply q (setFromAxisAngle yAxis 0) = q"
  by (simp add: multiply_def setFromAxisAngle_def yAxis_def)

lemma animatePlanet_frozen:
  "orbit (animatePlanet dt 0 obj) = orbit obj"
  "mesh_quaternion (mesh (animatePlanet dt 0 obj)) = mesh_quaternion (mesh obj)"
  by (simp_all add: animatePlanet_def Let_def rotateY_def multiply_identity)

lemma frozen_planets:
  "map orbit (created (renderLoop random (p\<lparr>timeScale := Some 0\<rparr>) cameraQ dt s)) = map orbit (created s)"
  "map (\<lambda>c. mesh_quaternion (mesh c)) (created (renderLoop random (p\<lparr>timeScale := Some 0\<rparr>) cameraQ dt s)) =
     map (\<lambda>c. mesh_quaternion (mesh c)) (created s)"
  by (simp_all add: created_renderLoop nullish_def comp_def animatePlanet_frozen)

lemma frozen_ring_and_belt:
  "saturnRing (renderLoop random (p\<lparr>timeScale := Some 0\<rparr>) cameraQ dt s) = saturnRing s"
  "asteroidBelt (renderLoop random (p\<lparr>timeScale := Some 0\<rparr>) cameraQ dt s) = asteroidBelt s"
  by (simp_all add: saturnRing_renderLoop asteroidBelt_renderLoop nullish_def option.map_ident)

text \<open>A frame that rebuilds the field starts the new field at the draw after those the loop
  used for the pebbles it recycled.\<close>

lemma spaceDust_renderLoop_rebuild:
  assumes "spaceDust s = Some dustObj" "spaceDustEnabled p" "configChanged p dustObj"
  shows "spaceDust (renderLoop random p cameraQ dt s) =
     Some (fst (createSpacePebbles random p (pebbleOptions p)
                  (randomCalls s + 2 * length (filter (recycled dustObj (dustMove p dt)) (pebbles dustObj)))))"
proof -
  have n: "snd (animatePebbles random p dt (dustObj\<lparr>visible := True\<rparr>) (randomCalls s)) =
      randomCalls s + 2 * length (filter (recycled dustObj (dustMove p dt)) (pebbles dustObj))"
    by (simp add: animatePebbles_eq updatePebbles_visible updatePebbles_draws)
  have "spaceDust (updateSpaceDust random p dt s') =
      Some (fst (createSpacePebbles random p (pebbleOptions p)
                  (snd (animatePebbles random p dt (dustObj\<lparr>visible := True\<rparr>) (randomCalls s')))))"
    if "spaceDust s' = Some dustObj" for s'
    using that assms(2,3)
    by (simp add: updateSpaceDust_def Let_def case_prod_beta configChanged_animatePebbles)
  then show ?thesis
    using assms(1) unfolding n [symmetric]
    by (simp add: renderLoop_def Let_def split: option.splits)
qed

lemma rebuilt_rotAngle:
  "spaceDustCount p = 1 \<Longrightarrow>
   map rotAngle (pebbles (fst (createSpacePebbles random p (pebbleOptions p) n))) = [random (n + 8) * pi * 2]"
  by (simp add: createSpacePebbles_def pebbleOptions_def nullish_def Let_def newPebble_def writeTransform_def)

lemma dustField_list: "pebbles dustField = [pebbles dustField ! 0, pebbles dustField ! 1]"
proof -
  have "length (pebbles dustField) = 2" by (rule dustField_fields)
  then show ?thesis
    by (cases "pebbles dustField"; cases "tl (pebbles dustField)") auto
qed

lemma dustField_recycled:
  "length (filter (recycled dustField 0) (pebbles dustField)) = 0"
  "length (filter (recycled dustField 60) (pebbles dustField)) = 2"
proof -
  let ?a = "pebbles dustField ! 0" and ?b = "pebbles dustField ! 1"
  have r0: "\<not> recycled dustField 0 ?a" "\<not> recycled dustField 0 ?b"
    unfolding recycled_def dustField_nth dustField_fields by simp_all
  have r60: "recycled dustField 60 ?a" "recycled dustField 60 ?b"
    unfolding recycled_def dustField_nth dustField_fields by simp_all
  have f0: "filter (recycled dustField 0) [?a, ?b] = []"
    by (simp only: filter.simps r0 if_False)
  have f60: "filter (recycled dustField 60) [?a, ?b] = [?a, ?b]"
    by (simp only: filter.simps r60 if_True)
  show "length (filter (recycled dustField 0) (pebbles dustField)) = 0"
    by (subst dustField_list, subst f0, simp)
  show "length (filter (recycled dustField 60) (pebbles dustField)) = 2"
    by (subst dustField_list, subst f60, simp)
qed

text \<open>
  Claim C10 as stated fails: in a frame that rebuilds the field, the new pebbles take their
  phases from the draws that follow those of the loop, and the time scale decides how many
  pebbles the loop recycles. With time scale 0 the one new pebble gets draw 26, with time
  scale 100 draw 30.
\<close>

theorem dust_rebuild_depends_on_time_scale_counterexample:
  "map_option (\<lambda>d'. map rotAngle (pebbles d'))
     (spaceDust (renderLoop exampleDraws (rebuildParams\<lparr>timeScale := Some 0\<rparr>) identityQ 1 dustScene)) \<noteq>
   map_option (\<lambda>d'. map rotAngle (pebbles d'))
     (spaceDust (renderLoop exampleDraws (rebuildParams\<lparr>timeScale := Some 100\<rparr>) identityQ 1 dustScene))"
proof -
  have s: "spaceDust dustScene = Some dustField" "randomCalls dustScene = 18"
    by (simp_all add: dustScene_def)
  have e: "spaceDustEnabled (rebuildParams\<lparr>timeScale := t\<rparr>)" for t
    by (simp add: rebuildParams_def initialParams_def)
  have c: "configChanged (rebuildParams\<lparr>timeScale := t\<rparr>) dustField" for t
    by (simp add: configChanged_def rebuildParams_def dustField_fields)
  have k: "spaceDustCount (rebuildParams\<lparr>timeScale := t\<rparr>) = 1" for t
    by (simp add: rebuildParams_def)
  have m0: "dustMove (rebuildParams\<lparr>timeScale := Some 0\<rparr>) 1 = 0"
    by (simp add: dustMove_def nullish_def)
  have m100: "dustMove (rebuildParams\<lparr>timeScale := Some 100\<rparr>) 1 = 60"
    by (simp add: dustMove_def nullish_def orElse_def rebuildParams_def initialParams_def)
  have a0: "map_option (\<lambda>d'. map rotAngle (pebbles d'))
     (spaceDust (renderLoop exampleDraws (rebuildParams\<lparr>timeScale := Some 0\<rparr>) identityQ 1 dustScene)) =
     Some [exampleDraws 26 * pi * 2]"
    by (simp add: spaceDust_renderLoop_rebuild [OF s(1) e c] s(2) m0 dustField_recycled
        rebuilt_rotAngle [OF k])
  have a100: "map_option (\<lambda>d'. map rotAngle (pebbles d'))
     (spaceDust (renderLoop exampleDraws (rebuildParams\<lparr>timeScale := Some 100\<rparr>) identityQ 1 dustScene)) =
     Some [exampleDraws 30 * pi * 2]"
    by (simp add: spaceDust_renderLoop_rebuild [OF s(1) e c] s(2) m100 dustField_recycled
        rebuilt_rotAngle [OF k])
  show ?thesis
    unfolding a0 a100 by (simp add: exampleDraws_def)
qed

text \<open>
  Claim C10, amended. Take two frames on the same scene with the same \<open>dt\<close> and draws that
  differ in the time scale only, and let the settings not make the frame rebuild the field.
  With the swarm enabled, every pebble's rotation phase after either frame is its phase
  before plus \<open>rotSpeed * dt\<close>; with the swarm disabled it is its phase before; so the phases
  after the two frames are equal. With time scale 0 a pebble behind the near plane keeps its
  position and the orbit groups, the ring and the belt keep their rotations.
\<close>

theorem dust_spin_ignores_time_scale:
  assumes "spaceDust s = Some d" and "\<not> configChanged p d"
  shows "(spaceDustEnabled p \<longrightarrow>
            map_option (\<lambda>d'. map rotAngle (pebbles d'))
              (spaceDust (renderLoop random (p\<lparr>timeScale := t1\<rparr>) cameraQ dt s)) =
              Some (map (\<lambda>pb. rotAngle pb + rotSpeed pb * dt) (pebbles d)) \<and>
            map_option (\<lambda>d'. map rotAngle (pebbles d'))
              (spaceDust (renderLoop random (p\<lparr>timeScale := t2\<rparr>) cameraQ dt s)) =
              Some (map (\<lambda>pb. rotAngle pb + rotSpeed pb * dt) (pebbles d))) \<and>
         (\<not> spaceDustEnabled p \<longrightarrow>
            map_option (\<lambda>d'. map rotAngle (pebbles d'))
              (spaceDust (renderLoop random (p\<lparr>timeScale := t1\<rparr>) cameraQ dt s)) =
              Some (map rotAngle (pebbles d)) \<and>
            map_option (\<lambda>d'. map rotAngle (pebbles d'))
              (spaceDust (renderLoop random (p\<lparr>timeScale := t2\<rparr>) cameraQ dt s)) =
              Some (map rotAngle (pebbles d))) \<and>
         map_option (\<lambda>d'. map rotAngle (pebbles d'))
           (spaceDust (renderLoop random (p\<lparr>timeScale := t1\<rparr>) cameraQ dt s)) =
         map_option (\<lambda>d'. map rotAngle (pebbles d'))
           (spaceDust (renderLoop random (p\<lparr>timeScale := t2\<rparr>) cameraQ dt s)) \<and>
         (\<forall>i<length (pebbles d). vz (pos (pebbles d ! i)) \<le> - near d \<longrightarrow>
            map_option (\<lambda>d'. pos (pebbles d' ! i))
              (spaceDust (renderLoop random (p\<lparr>timeScale := Some 0\<rparr>) cameraQ dt s)) =
              Some (pos (pebbles d ! i))) \<and>
         map orbit (created (renderLoop random (p\<lparr>timeScale := Some 0\<rparr>) cameraQ dt s)) = map orbit (created s) \<and>
         saturnRing (renderLoop random (p\<lparr>timeScale := Some 0\<rparr>) cameraQ dt s) = saturnRing s \<and>
         asteroidBelt (renderLoop random (p\<lparr>timeScale := Some 0\<rparr>) cameraQ dt s) = asteroidBelt s"
proof -
  have c: "\<not> configChanged (p\<lparr>timeScale := t\<rparr>) d" for t
    using assms(2) by simp
  have on: "map_option (\<lambda>d'. map rotAngle (pebbles d'))
        (spaceDust (renderLoop random (p\<lparr>timeScale := t\<rparr>) cameraQ dt s)) =
      Some (map (\<lambda>pb. rotAngle pb + rotSpeed pb * dt) (pebbles d))" if "spaceDustEnabled p" for t
  proof -
    have "spaceDustEnabled (p\<lparr>timeScale := t\<rparr>)" using that by simp
    from pebbles_renderLoop_enabled [OF assms(1) this c]
    have "map_option pebbles (spaceDust (renderLoop random (p\<lparr>timeScale := t\<rparr>) cameraQ dt s)) =
        Some (pebbles (fst (animatePebbles random (p\<lparr>timeScale := t\<rparr>) dt d (randomCalls s))))" .
    from arg_cong [OF this, of "map_option (map rotAngle)"]
    show ?thesis
      by (simp add: option.map_comp comp_def animatePebbles_eq updatePebbles_rotAngle)
  qed
  have off: "spaceDust (renderLoop random (p\<lparr>timeScale := t\<rparr>) cameraQ dt s) = Some (d\<lparr>visible := False\<rparr>)"
    if "\<not> spaceDustEnabled p" for t
  proof -
    have "\<not> spaceDustEnabled (p\<lparr>timeScale := t\<rparr>)" using that by simp
    from spaceDust_renderLoop_disabled [OF assms(1) this] show ?thesis .
  qed
  have same: "map_option (\<lambda>d'. map rotAngle (pebbles d'))
           (spaceDust (renderLoop random (p\<lparr>timeScale := t1\<rparr>) cameraQ dt s)) =
         map_option (\<lambda>d'. map rotAngle (pebbles d'))
           (spaceDust (renderLoop random (p\<lparr>timeScale := t2\<rparr>) cameraQ dt s))"
  proof (cases "spaceDustEnabled p")
    case True
    show ?thesis by (simp only: on [OF True])
  next
    case False
    show ?thesis by (simp only: off [OF False])
  qed
  have still: "map_option (\<lambda>d'. pos (pebbles d' ! i))
              (spaceDust (renderLoop random (p\<lparr>timeScale := Some 0\<rparr>) cameraQ dt s)) =
              Some (pos (pebbles d ! i))"
    if i: "i < length (pebbles d)" and z: "vz (pos (pebbles d ! i)) \<le> - near d" for i
  proof (cases "spaceDustEnabled p")
    case True
    then have e: "spaceDustEnabled (p\<lparr>timeScale := Some 0\<rparr>)" by simp
    have m: "dustMove (p\<lparr>timeScale := Some 0\<rparr>) dt = 0"
      by (simp add: dustMove_def nullish_def)
    have r: "\<not> recycled d 0 (pebbles d ! i)" using z by (simp add: recycled_def)
    from pebbles_renderLoop_enabled [OF assms(1) e c]
    have "map_option pebbles (spaceDust (renderLoop random (p\<lparr>timeScale := Some 0\<rparr>) cameraQ dt s)) =
        Some (pebbles (fst (animatePebbles random (p\<lparr>timeScale := Some 0\<rparr>) dt d (randomCalls s))))" .
    from arg_cong [OF this, of "map_option (\<lambda>pbs. pos (pbs ! i))"]
    show ?thesis
      using i r
      by (simp add: option.map_comp comp_def animatePebbles_eq m updatePebbles_nth updatePebble_eq
          writeTransform_def)
  next
    case False
    then show ?thesis by (simp add: off)
  qed
  show ?thesis
    using on off same still frozen_planets(1) frozen_ring_and_belt
    by (intro conjI impI allI) simp_all
qed

text \<open>The field of two pebbles at time scales 0 and 100, enabled and disabled.\<close>

theorem dust_spin_ignores_time_scale_witness:
  "map_option (\<lambda>d'. map rotAngle (pebbles d'))
     (spaceDust (renderLoop exampleDraws (dustParams\<lparr>timeScale := Some 0\<rparr>) identityQ 1 dustScene)) =
     Some [pi + 0.75, pi + 0.75] \<and>
   map_option (\<lambda>d'. map rotAngle (pebbles d'))
     (spaceDust (renderLoop exampleDraws (dustParams\<lparr>timeScale := Some 100\<rparr>) identityQ 1 dustScene)) =
     Some [pi + 0.75, pi + 0.75] \<and>
   map_option (\<lambda>d'. pos (pebbles d' ! 0))
     (spaceDust (renderLoop exampleDraws (dustParams\<lparr>timeScale := Some 0\<rparr>) identityQ 1 dustScene)) =
     Some \<lparr>vx = 0, vy = 0, vz = - 31\<rparr> \<and>
   map_option (\<lambda>d'. map rotAngle (pebbles d'))
     (spaceDust (renderLoop exampleDraws (dustParams\<lparr>spaceDustEnabled := False, timeScale := Some 100\<rparr>)
        identityQ 1 dustScene)) =
     Some [pi, pi]"
proof -
  have s: "spaceDust dustScene = Some dustField" by (simp add: dustScene_def)
  have e: "spaceDustEnabled dustParams" by (simp add: dustParams_def initialParams_def)
  have i: "0 < length (pebbles dustField)" by (simp add: dustField_fields)
  have z: "vz (pos (pebbles dustField ! 0)) \<le> - near dustField"
    unfolding dustField_nth dustField_fields by simp
  have r: "map (\<lambda>pb. rotAngle pb + rotSpeed pb * 1) (pebbles dustField) = [pi + 0.75, pi + 0.75]"
    using dustField_nth(4) [of 1] by simp
  note T = dust_spin_ignores_time_scale [OF s dustParams_unchanged, where random = exampleDraws
      and ?t1.0 = "Some 0" and ?t2.0 = "Some 100" and dt = 1 and cameraQ = identityQ]
  from T e have 1: "map_option (\<lambda>d'. map rotAngle (pebbles d'))
     (spaceDust (renderLoop exampleDraws (dustParams\<lparr>timeScale := Some 0\<rparr>) identityQ 1 dustScene)) =
     Some (map (\<lambda>pb. rotAngle pb + rotSpeed pb * 1) (pebbles dustField))"
    by blast
  from T e have 2: "map_option (\<lambda>d'. map rotAngle (pebbles d'))
     (spaceDust (renderLoop exampleDraws (dustParams\<lparr>timeScale := Some 100\<rparr>) identityQ 1 dustScene)) =
     Some (map (\<lambda>pb. rotAngle pb + rotSpeed pb * 1) (pebbles dustField))"
    by blast
  from T i z have 3: "map_option (\<lambda>d'. pos (pebbles d' ! 0))
     (spaceDust (renderLoop exampleDraws (dustParams\<lparr>timeScale := Some 0\<rparr>) identityQ 1 dustScene)) =
     Some (pos (pebbles dustField ! 0))"
    by blast
  have n: "\<not> spaceDustEnabled (dustParams\<lparr>spaceDustEnabled := False\<rparr>)" by simp
  have c: "\<not> configChanged (dustParams\<lparr>spaceDustEnabled := False\<rparr>) dustField"
    using dustParams_unchanged by (simp add: configChanged_def)
  from dust_spin_ignores_time_scale [OF s c, where random = exampleDraws
      and ?t1.0 = "Some 0" and ?t2.0 = "Some 100" and dt = 1 and cameraQ = identityQ] n
  have 4: "map_option (\<lambda>d'. map rotAngle (pebbles d'))
     (spaceDust (renderLoop exampleDraws (dustParams\<lparr>spaceDustEnabled := False, timeScale := Some 100\<rparr>)
        identityQ 1 dustScene)) =
     Some (map rotAngle (pebbles dustField))"
    by blast
  show ?thesis
    unfolding 1 2 3 4 r dustField_nth(1) dustField_pebbles(2) by simp
qed

section \<open>Labels and the camera\<close>

lemma cancel_x:
  "qx (multiply P c) * qw c - qw (multiply P c) * qx c - qy (multiply P c) * qz c + qz (multiply P c) * qy c
     = qx P * lengthSq c"
  by (simp add: multiply_def lengthSq_def algebra_simps)

lemma cancel_z:
  "qz (multiply P c) * qw c - qw (multiply P c) * qz c - qx (multiply P c) * qy c + qy (multiply P c) * qx c
     = qz P * lengthSq c"
  by (simp add: multiply_def lengthSq_def algebra_simps)

lemma sameOrientation_parent:
  assumes "sameOrientation (multiply P c) c" "lengthSq c = 1"
  shows "qx P = 0 \<and> qz P = 0"
proof -
  from assms(1) have "multiply P c = c \<or> multiply P c = negateQ c"
    by (simp add: sameOrientation_def)
  then have "qx (multiply P c) * qw c - qw (multiply P c) * qx c - qy (multiply P c) * qz c + qz (multiply P c) * qy c = 0
      \<and> qz (multiply P c) * qw c - qw (multiply P c) * qz c - qx (multiply P c) * qy c + qy (multiply P c) * qx c = 0"
    by (auto simp: negateQ_def)
  then show ?thesis by (simp add: cancel_x cancel_z assms(2))
qed

lemma two_squares:
  fixes s sa ca sb cb :: real
  shows "(s * (sa * cb - ca * sb))\<^sup>2 + (s * (ca * cb + sa * sb))\<^sup>2 =
         s\<^sup>2 * ((sa\<^sup>2 + ca\<^sup>2) * (sb\<^sup>2 + cb\<^sup>2))"
  by (simp add: power2_eq_square algebra_simps)

lemma parent_xz:
  "(qx (multiply (multiply (setFromEuler 0 a 0) (setFromEuler 0 0 t)) (setFromAxisAngle yAxis b)))\<^sup>2 +
   (qz (multiply (multiply (setFromEuler 0 a 0) (setFromEuler 0 0 t)) (setFromAxisAngle yAxis b)))\<^sup>2 =
   (sin (t / 2))\<^sup>2"
proof -
  let ?sa = "sin (a / 2)" and ?ca = "cos (a / 2)" and ?sb = "sin (b / 2)" and ?cb = "cos (b / 2)"
  let ?st = "sin (t / 2)"
  have x: "qx (multiply (multiply (setFromEuler 0 a 0) (setFromEuler 0 0 t)) (setFromAxisAngle yAxis b)) =
      ?st * (?sa * ?cb - ?ca * ?sb)"
    by (simp add: multiply_def setFromEuler_def setFromAxisAngle_def yAxis_def Let_def algebra_simps)
  have z: "qz (multiply (multiply (setFromEuler 0 a 0) (setFromEuler 0 0 t)) (setFromAxisAngle yAxis b)) =
      ?st * (?ca * ?cb + ?sa * ?sb)"
    by (simp add: multiply_def setFromEuler_def setFromAxisAngle_def yAxis_def Let_def algebra_simps)
  have "(?st * (?sa * ?cb - ?ca * ?sb))\<^sup>2 + (?st * (?ca * ?cb + ?sa * ?sb))\<^sup>2 =
      ?st\<^sup>2 * ((?sa\<^sup>2 + ?ca\<^sup>2) * (?sb\<^sup>2 + ?cb\<^sup>2))"
    by (rule two_squares)
  also have "\<dots> = ?st\<^sup>2" by simp
  finally show ?thesis by (simp only: x z)
qed

lemma sin_half_tilt:
  assumes "0 < t" "t < 360"
  shows "0 < sin (degToRad t / 2)"
proof -
  have "0 < degToRad t / 2" using assms by (simp add: degToRad_def)
  moreover have "degToRad t / 2 < pi" using assms by (simp add: degToRad_def)
  ultimately show ?thesis by (rule sin_gt_zero)
qed

lemma labels_updateSpaceDust [simp]: "labels (updateSpaceDust random p dt s) = labels s"
  by (simp add: updateSpaceDust_def Let_def case_prod_beta split: option.splits)

lemma labels_renderLoop:
  "labels (renderLoop random p cameraQ dt s) =
     (case labels s of
        None \<Rightarrow> None
      | Some ls \<Rightarrow>
          Some (if labelsEnabled p then map (\<lambda>l. billboard p cameraQ (l\<lparr>label_visible := True\<rparr>)) ls
                else map (\<lambda>l. l\<lparr>label_visible := False\<rparr>) ls))"
  by (simp add: renderLoop_def updateLabels_def Let_def comp_def split: option.splits)

lemma billboard_fields:
  "label_quaternion (billboard p cameraQ l) = cameraQ"
  "planetObj (billboard p cameraQ l) = planetObj l"
  "label_visible (billboard p cameraQ l) = label_visible l"
  by (simp_all add: billboard_def Let_def)

text \<open>A label is synchronised again only in a frame that finds its size different from
  the configured one, and then it takes the configured size.\<close>

lemma billboard_sync:
  "syncCalls (billboard p cameraQ l) =
     (if fontSize l \<noteq> 0 \<and> \<bar>fontSize l - orElse (labelSize p) 0.6\<bar> > 0.001
      then Suc (syncCalls l) else syncCalls l)"
  "syncCalls (billboard p cameraQ l) \<noteq> syncCalls l \<Longrightarrow> fontSize l \<noteq> orElse (labelSize p) 0.6"
  "syncCalls (billboard p cameraQ (billboard p cameraQ' l)) = syncCalls (billboard p cameraQ' l)"
  by (auto simp add: billboard_def Let_def)

lemma length_buildScene: "length (created (buildScene random ps)) = length ps"
  using arg_cong [OF buildScene_data [of random ps], of length] by simp

lemma length_attachAllMoons: "length (fst (attachAllMoons random objs n)) = length objs"
  using arg_cong [OF attachAllMoons_data [of random objs n], of length] by simp

lemma labels_buildScene:
  "labels (buildScene random ps) =
     Some (map (\<lambda>i. makeLabelMesh (name (data (fst (attachAllMoons random (map buildPlanetWithTilt ps) 0) ! i)))
                      (orElse (labelSize initialParams) 0.6) i) [0..<length ps])"
  by (simp add: buildScene_def addPlanetLabels_def Let_def case_prod_beta length_attachAllMoons)

lemma main_canvas:
  "main random (Some c) cameraQ dt =
     Inr (renderLoop random initialParams cameraQ dt
            ((buildScene random planets)
               \<lparr>spaceDust := Some (fst (createSpacePebbles random initialParams (pebbleOptions initialParams)
                                          (randomCalls (buildScene random planets)))),
                randomCalls := snd (createSpacePebbles random initialParams (pebbleOptions initialParams)
                                      (randomCalls (buildScene random planets)))\<rparr>))"
  by (simp add: main_def Let_def case_prod_beta)

lemma multiply_identity_left: "multiply identityQ q = q"
  by (simp add: multiply_def identityQ_def)

lemma first_frame_parent:
  assumes "created s = created (buildScene random ps)" "i < length ps"
  shows "parentWorldQuaternion (created (renderLoop random' p cameraQ dt s) ! i) =
     multiply (multiply (setFromEuler 0 (speed (ps ! i) * dt * 0.2 * nullish (timeScale p) 1) 0)
                        (setFromEuler 0 0 (degToRad (tilt (ps ! i)))))
              (setFromAxisAngle yAxis (speed (ps ! i) * dt * nullish (timeScale p) 1))"
proof -
  have i: "i < length (created s)" using assms by (simp add: length_buildScene)
  have d: "data (created s ! i) = ps ! i"
    using nth_map [OF i, of data] assms by (simp add: buildScene_data)
  have o: "orbit (created s ! i) = emptyGroup"
    using nth_map [OF i, of orbit] assms by (simp add: buildScene_orbit)
  have t: "tilt_group (created s ! i) = emptyGroup\<lparr>rotation_z := degToRad (tilt (ps ! i))\<rparr>"
    using nth_map [OF i, of tilt_group] assms by (simp add: buildScene_tilt)
  have q: "mesh_quaternion (mesh (created s ! i)) = identityQ"
    using nth_map [OF i, of "\<lambda>c. mesh_quaternion (mesh c)"] assms by (simp add: buildScene_quaternion)
  have t': "tilt_group (created (renderLoop random' p cameraQ dt s) ! i) = tilt_group (created s ! i)"
    by (rule nth_via_map [OF _ tilt_renderLoop]) (simp add: i)
  show ?thesis
    by (simp add: parentWorldQuaternion_def groupQuaternion_def orbit_renderLoop [OF i]
        quaternion_renderLoop [OF i] t' d o t q emptyGroup_def rotateY_def multiply_identity_left)
qed

lemma planets_tilts: "list_all (\<lambda>p. 0 < tilt p \<and> tilt p < 360) planets"
  by (simp add: planets_def)

text \<open>
  Claim C7, on the first frame of the program, for every unit quaternion of the camera, every
  \<open>dt\<close> and all draws: each label's own quaternion is the camera's after the update, and yet
  no label has the camera's orientation in the world. The label hangs under the planet mesh,
  the tilt group and the orbit group, whose rotations compose with its own, and each planet
  of the source is tilted by more than 0 and less than 360 degrees. The second half of the
  claim holds: \<open>billboard_sync\<close>.
\<close>

theorem label_billboard_misses_parent_rotation:
  assumes "lengthSq cameraQ = 1" and "i < length planets"
  shows "case main random (Some HTMLCanvasElement) cameraQ dt of
           Inl e \<Rightarrow> False
         | Inr s' \<Rightarrow>
             (case labels s' of
                None \<Rightarrow> False
              | Some ls \<Rightarrow>
                  length ls = length planets \<and>
                  planetObj (ls ! i) = i \<and>
                  label_quaternion (ls ! i) = cameraQ \<and>
                  \<not> sameOrientation (labelWorldQuaternion (created s' ! i) (ls ! i)) cameraQ)"
proof -
  let ?s1 = "(buildScene random planets)
               \<lparr>spaceDust := Some (fst (createSpacePebbles random initialParams (pebbleOptions initialParams)
                                          (randomCalls (buildScene random planets)))),
                randomCalls := snd (createSpacePebbles random initialParams (pebbleOptions initialParams)
                                      (randomCalls (buildScene random planets)))\<rparr>"
  let ?s' = "renderLoop random initialParams cameraQ dt ?s1"
  let ?ls0 = "map (\<lambda>i. makeLabelMesh (name (data (fst (attachAllMoons random (map buildPlanetWithTilt planets) 0) ! i)))
                      (orElse (labelSize initialParams) 0.6) i) [0..<length planets]"
  let ?ls = "map (\<lambda>l. billboard initialParams cameraQ (l\<lparr>label_visible := True\<rparr>)) ?ls0"
  have e: "labelsEnabled initialParams" by (simp add: initialParams_def)
  have ls: "labels ?s' = Some ?ls"
    by (simp add: labels_renderLoop labels_buildScene e)
  have len: "length ?ls = length planets" by simp
  have li: "?ls ! i = billboard initialParams cameraQ ((makeLabelMesh
      (name (data (fst (attachAllMoons random (map buildPlanetWithTilt planets) 0) ! i)))
      (orElse (labelSize initialParams) 0.6) i)\<lparr>label_visible := True\<rparr>)"
    using assms(2) by simp
  have po: "planetObj (?ls ! i) = i"
    unfolding li by (simp add: billboard_fields makeLabelMesh_def)
  have lq: "label_quaternion (?ls ! i) = cameraQ"
    unfolding li by (simp add: billboard_fields)
  let ?P = "parentWorldQuaternion (created ?s' ! i)"
  have P: "?P = multiply (multiply (setFromEuler 0 (speed (planets ! i) * dt * 0.2 * nullish (timeScale initialParams) 1) 0)
                        (setFromEuler 0 0 (degToRad (tilt (planets ! i)))))
              (setFromAxisAngle yAxis (speed (planets ! i) * dt * nullish (timeScale initialParams) 1))"
    by (rule first_frame_parent [OF _ assms(2)]) simp
  have "0 < tilt (planets ! i) \<and> tilt (planets ! i) < 360"
    using planets_tilts assms(2) by (simp add: list_all_length)
  then have "0 < sin (degToRad (tilt (planets ! i)) / 2)" by (simp add: sin_half_tilt)
  then have "0 < (sin (degToRad (tilt (planets ! i)) / 2))\<^sup>2" by simp
  then have "(qx ?P)\<^sup>2 + (qz ?P)\<^sup>2 \<noteq> 0"
    unfolding P parent_xz by simp
  then have "\<not> (qx ?P = 0 \<and> qz ?P = 0)" by auto
  then have "\<not> sameOrientation (multiply ?P cameraQ) cameraQ"
    using sameOrientation_parent [OF _ assms(1)] by blast
  then have w: "\<not> sameOrientation (labelWorldQuaternion (created ?s' ! i) (?ls ! i)) cameraQ"
    unfolding labelWorldQuaternion_def lq .
  show ?thesis
    unfolding main_canvas sum.case ls option.case
    using len po lq w by blast
qed

text \<open>Earth's label with the camera at the identity orientation.\<close>

theorem label_billboard_misses_parent_rotation_witness:
  "case main (\<lambda>k. 0) (Some HTMLCanvasElement) identityQ 1 of
     Inl e \<Rightarrow> False
   | Inr s' \<Rightarrow>
       (case labels s' of
          None \<Rightarrow> False
        | Some ls \<Rightarrow>
            label_quaternion (ls ! 2) = identityQ \<and>
            \<not> sameOrientation (labelWorldQuaternion (created s' ! 2) (ls ! 2)) identityQ)"
proof -
  have u: "lengthSq identityQ = 1" by (simp add: lengthSq_def identityQ_def)
  have i: "2 < length planets" by (simp add: planets_def)
  from label_billboard_misses_parent_rotation [OF u i, of "\<lambda>k. 0" 1]
  show ?thesis by (auto split: sum.splits option.splits)
qed

section \<open>Startup and empty moon lists\<close>

text \<open>
  Claim C9. Without the canvas element the module ends in the error, whatever the inputs of
  a first frame would be: no frame is computed. With it the module reaches the first frame.
  A planet with an empty moon list gets no child and makes no draw, and the moons of the
  planets after it are attached as if it were not there.
\<close>

theorem canvas_check_and_empty_moons:
  \<open>main random None cameraQ dt = Inl (Error ''Canvas with id="canvas" not found'') \<and>
   main random None cameraQ dt = main random None cameraQ' dt' \<and>
   (\<exists>s. main random (Some c) cameraQ dt = Inr s) \<and>
   moonMeshes random [] n = ([], n) \<and>
   (moons (data obj) = Some [] \<longrightarrow>
      attachMoons random obj n = (obj, n) \<and>
      attachAllMoons random (obj # objs) n =
        (obj # fst (attachAllMoons random objs n), snd (attachAllMoons random objs n)))\<close>
proof (intro conjI impI)
  show \<open>main random None cameraQ dt = Inl (Error ''Canvas with id="canvas" not found'')\<close>
    by (simp add: main_def Let_def)
  show "main random None cameraQ dt = main random None cameraQ' dt'"
    by (simp add: main_def Let_def)
  show "\<exists>s. main random (Some c) cameraQ dt = Inr s"
    by (simp add: main_canvas)
  show "moonMeshes random [] n = ([], n)" by simp
next
  assume m: "moons (data obj) = Some []"
  then show a: "attachMoons random obj n = (obj, n)"
    by (simp add: attachMoons_def)
  show "attachAllMoons random (obj # objs) n =
        (obj # fst (attachAllMoons random objs n), snd (attachAllMoons random objs n))"
    unfolding attachAllMoons_Cons a by simp
qed

text \<open>Mercury, which has no moon, before Mars.\<close>

theorem canvas_check_and_empty_moons_witness:
  "attachMoons (\<lambda>k. 0) (buildPlanetWithTilt (planets ! 0)) 7 = (buildPlanetWithTilt (planets ! 0), 7) \<and>
   fst (attachAllMoons (\<lambda>k. 0) [buildPlanetWithTilt (planets ! 0), buildPlanetWithTilt marsData] 0) =
     [buildPlanetWithTilt (planets ! 0), fst (attachMoons (\<lambda>k. 0) (buildPlanetWithTilt marsData) 0)]"
proof -
  have m: "moons (data (buildPlanetWithTilt (planets ! 0))) = Some []"
    by (simp add: planets_def buildPlanetWithTilt_def)
  note T = canvas_check_and_empty_moons [where obj = "buildPlanetWithTilt (planets ! 0)" and random = "\<lambda>k. 0"]
  from T [where n = 7] m have 1: "attachMoons (\<lambda>k. 0) (buildPlanetWithTilt (planets ! 0)) 7 = (buildPlanetWithTilt (planets ! 0), 7)"
    by blast
  from T [where n = 0 and objs = "[buildPlanetWithTilt marsData]"] m
  have "attachAllMoons (\<lambda>k. 0) [buildPlanetWithTilt (planets ! 0), buildPlanetWithTilt marsData] 0 =
        (buildPlanetWithTilt (planets ! 0) # fst (attachAllMoons (\<lambda>k. 0) [buildPlanetWithTilt marsData] 0),
         snd (attachAllMoons (\<lambda>k. 0) [buildPlanetWithTilt marsData] 0))"
    by blast
  then have 2: "fst (attachAllMoons (\<lambda>k. 0) [buildPlanetWithTilt (planets ! 0), buildPlanetWithTilt marsData] 0) =
     [buildPlanetWithTilt (planets ! 0), fst (attachMoons (\<lambda>k. 0) (buildPlanetWithTilt marsData) 0)]"
    by (simp add: attachAllMoons_Cons del: attachAllMoons.simps(2))
  show ?thesis using 1 2 by blast
qed

end
